theory Spec2Isabelle
  imports
    Complex_Main
    "HOL-Library.Multiset"
    "HOL-Library.Char_ord"
    "HOL-Library.List_Lexorder"
    "HOL-Library.Option_ord"
    "HOL-Library.Product_Lexorder"
begin

section \<open>Exceptions and the handlers' catch-all clause\<close>

text \<open>
  The route handlers of \<^verbatim>\<open>app/routes/routes.py\<close> either return a value or raise.
  A raise is the left summand of the result. \<^verbatim>\<open>HTTPException(status_code, detail)\<close>
  is what the framework turns into the HTTP error response; the other constructors are
  the Python exceptions that the modelled code can raise. The detail of a re-raised
  exception is \<^verbatim>\<open>str(e)\<close>; it is kept symbolic (\<open>Str e\<close>), since its text is
  the library's.
\<close>

datatype exn =
    HTTPException nat detail
  | ZeroDivisionError
  | ValueError
  | TypeError
and detail = Text string | Str exn

text \<open>
  \<^verbatim>\<open>try: ... except Exception as e: raise HTTPException(status_code=500, detail=str(e))\<close>.
  \<^verbatim>\<open>HTTPException\<close> is itself a subclass of \<^verbatim>\<open>Exception\<close>, so the clause also
  catches an \<^verbatim>\<open>HTTPException\<close> raised inside the \<^verbatim>\<open>try\<close> block.
\<close>

definition except_500 :: "exn + 'a \<Rightarrow> exn + 'a" where
  "except_500 r = (case r of Inl e \<Rightarrow> Inl (HTTPException 500 (Str e)) | Inr v \<Rightarrow> Inr v)"

section \<open>Strings\<close>

text \<open>\<^verbatim>\<open>str.lower()\<close>, on ASCII letters; other bytes are left as they are.\<close>

definition lower_char :: "char \<Rightarrow> char" where
  "lower_char c =
     (if CHR ''A'' \<le> c \<and> c \<le> CHR ''Z'' then char_of (of_char c + (32::nat)) else c)"

definition lower :: "string \<Rightarrow> string" where
  "lower s = map lower_char s"

text \<open>\<^verbatim>\<open>sep.join(parts)\<close> for parts that are all strings.\<close>

fun join :: "string \<Rightarrow> string list \<Rightarrow> string" where
  "join sep [] = []"
| "join sep [x] = x"
| "join sep (x # y # ys) = x @ sep @ join sep (y # ys)"

text \<open>\<^verbatim>\<open>str(n)\<close> for an integer, as an f-string renders it.\<close>

fun str_nat :: "nat \<Rightarrow> string" where
  "str_nat n =
     (if n < 10 then [char_of (48 + n)] else str_nat (n div 10) @ [char_of (48 + n mod 10)])"

definition str_int :: "int \<Rightarrow> string" where
  "str_int i = (if i < 0 then CHR ''-'' # str_nat (nat (- i)) else str_nat (nat i))"

section \<open>Query predicates and Python built-ins\<close>

text \<open>
  A nullable column is an \<open>option\<close>. Under SQL's three-valued logic a comparison with
  NULL is not true, so a row whose column is NULL passes none of \<^verbatim>\<open>==\<close>,
  \<^verbatim>\<open>!=\<close> and \<^verbatim>\<open>.in_(...)\<close>; NULL members of the value list match nothing.
\<close>

definition sql_eq :: "'a option \<Rightarrow> 'a \<Rightarrow> bool" where
  "sql_eq col v = (col = Some v)"

definition sql_ne :: "'a option \<Rightarrow> 'a \<Rightarrow> bool" where
  "sql_ne col v = (case col of None \<Rightarrow> False | Some w \<Rightarrow> w \<noteq> v)"

definition sql_in :: "'a option \<Rightarrow> 'a option list \<Rightarrow> bool" where
  "sql_in col vals = (col \<noteq> None \<and> col \<in> set vals)"

text \<open>\<^verbatim>\<open>Query.first()\<close>: the first matching row, or \<^verbatim>\<open>None\<close>.\<close>

definition first :: "'a list \<Rightarrow> 'a option" where
  "first rows = (case rows of [] \<Rightarrow> None | r # _ \<Rightarrow> Some r)"

text \<open>
  \<^verbatim>\<open>sorted(xs, key=key, reverse=reverse)\<close>. Python's sort is stable, also with
  \<^verbatim>\<open>reverse=True\<close>: the list is reversed, sorted ascending and stable, and reversed
  again, so that elements with equal keys keep their original order.
\<close>

definition sorted_py :: "('a \<Rightarrow> 'k::linorder) \<Rightarrow> bool \<Rightarrow> 'a list \<Rightarrow> 'a list" where
  "sorted_py key reverse xs =
     (if reverse then rev (sort_key key (rev xs)) else sort_key key xs)"

text \<open>
  \<^verbatim>\<open>list(set(xs))\<close>, the iteration order of a Python \<^verbatim>\<open>set\<close> and the order of the
  groups of a \<^verbatim>\<open>GROUP BY\<close> are not fixed by the program. A handler that depends on one
  takes the enumeration as an argument; what is known of it is that it lists every
  element once.
\<close>

definition enumerates :: "('a list \<Rightarrow> 'a list) \<Rightarrow> bool" where
  "enumerates f = (\<forall>xs. distinct (f xs) \<and> set (f xs) = set xs)"

section \<open>Tables\<close>

text \<open>
  The columns of \<^verbatim>\<open>app/db/models.py\<close> that the modelled handlers read. String columns
  and the integer keys the handlers test or compare are nullable. The rate columns that
  enter arithmetic are total reals: exact arithmetic stands for the doubles, and a NULL
  rate is outside the model.
\<close>

record SiderDrugIndications =
  sider_drug_concept_name :: "string option"
  sider_event_concept_name :: "string option"

record PTtoHLTMapping =
  descendant_concept_name :: "string option"
  ancestor_concept_name :: "string option"
  ancestor_concept_class_id :: "string option"

record BarklaData =
  barkla_side_effect :: "string option"
  barkla_drug_name :: "string option"
  barkla_combined_rate :: real

record FAERSData =
  faers_drug_name :: "string option"
  faers_side_effect :: "string option"
  drug_side_effect_occurrence_count :: int
  case_count_with_drug :: int
  faers_rate :: real
  wilson_interval :: real

record Patient =
  patient_SUBJECT_ID :: "int option"
  GENDER :: "string option"
  DOB :: "string option"

record Diagnosis =
  diagnosis_SUBJECT_ID :: "int option"
  diagnosis_HADM_ID :: "int option"
  diagnosis_ICD9_CODE :: "string option"

record D_Icd =
  icd_ICD9_CODE :: "string option"
  SHORT_TITLE :: "string option"
  LONG_TITLE :: "string option"

record Admission =
  admission_HADM_ID :: "int option"
  ADMITTIME :: "string option"
  DISCHTIME :: "string option"
  DIAGNOSIS :: "string option"

text \<open>The session: one list of rows per table, in the order the store returns them.\<close>

record db =
  tbl_sider_drug_indications :: "SiderDrugIndications list"
  tbl_pt_to_hlt_or_hlgt :: "PTtoHLTMapping list"
  tbl_barkla_weighted_rate :: "BarklaData list"
  tbl_faers_counts_2024 :: "FAERSData list"
  tbl_patients :: "Patient list"
  tbl_diagnoses :: "Diagnosis list"
  tbl_d_icd :: "D_Icd list"
  tbl_admissions :: "Admission list"

definition empty_db :: db where
  "empty_db = \<lparr>tbl_sider_drug_indications = [], tbl_pt_to_hlt_or_hlgt = [],
     tbl_barkla_weighted_rate = [], tbl_faers_counts_2024 = [], tbl_patients = [],
     tbl_diagnoses = [], tbl_d_icd = [], tbl_admissions = []\<rparr>"

section \<open>\<^verbatim>\<open>/culprit_drug\<close>\<close>

record culprit =
  culprit_drug_name :: "string option"
  culprit_combined_rate :: real
  culprit_score :: real

text \<open>The rows of the weighted-rate query, in retrieval order.\<close>

definition culprit_rows :: "db \<Rightarrow> string \<Rightarrow> string list \<Rightarrow> BarklaData list" where
  "culprit_rows db side_effect drug_list =
     [row \<leftarrow> tbl_barkla_weighted_rate db.
        sql_eq (barkla_side_effect row) (lower side_effect) \<and>
        sql_in (barkla_drug_name row) (map Some (map lower drug_list))]"

text \<open>\<^verbatim>\<open>row.score = row.combined_rate / total_combined_rate\<close>, for every row.\<close>

definition scored :: "real \<Rightarrow> BarklaData list \<Rightarrow> (BarklaData \<times> real) list" where
  "scored total_combined_rate rows =
     map (\<lambda>row. (row, barkla_combined_rate row / total_combined_rate)) rows"

definition culprit_of :: "BarklaData \<times> real \<Rightarrow> culprit" where
  "culprit_of rs = \<lparr>culprit_drug_name = barkla_drug_name (fst rs),
     culprit_combined_rate = barkla_combined_rate (fst rs), culprit_score = snd rs\<rparr>"

definition get_culprit_drug :: "db \<Rightarrow> string \<Rightarrow> string list \<Rightarrow> exn + culprit list" where
  "get_culprit_drug db side_effect drug_list = except_500
     (let barkla_data = culprit_rows db side_effect drug_list in
      if barkla_data = [] then Inr []
      else
        let total_combined_rate = sum_list (map barkla_combined_rate barkla_data) in
        if total_combined_rate = 0 then Inl ZeroDivisionError
        else
          let ranked_drugs = sorted_py snd True (scored total_combined_rate barkla_data)
          in Inr (map culprit_of ranked_drugs))"

section \<open>\<^verbatim>\<open>/most_likely_side_effects\<close>\<close>

record top_side_effect =
  top_side_effect :: string
  top_total_rate :: real
  top_most_likely_drug :: "string option"

definition most_likely_rows :: "db \<Rightarrow> string list \<Rightarrow> BarklaData list" where
  "most_likely_rows db drug_list =
     [row \<leftarrow> tbl_barkla_weighted_rate db.
        sql_in (barkla_drug_name row) (map Some (map lower drug_list))]"

text \<open>
  \<^verbatim>\<open>barkla_data.groupby('side_effect').sum('combined_rate').reset_index()\<close>, renamed:
  one row per side effect, the keys in ascending order (rows whose key is null belong to
  no group), with the sum of the numeric column over the group.
\<close>

definition side_effects_rates :: "BarklaData list \<Rightarrow> (string \<times> real) list" where
  "side_effects_rates barkla_data =
     map (\<lambda>s. (s, sum_list (map barkla_combined_rate
                     [row \<leftarrow> barkla_data. barkla_side_effect row = Some s])))
       (sort (remdups [s. Some s \<leftarrow> map barkla_side_effect barkla_data]))"

text \<open>
  \<^verbatim>\<open>sort_values(by='total_rate', ascending=False)\<close> uses the default sort kind, which
  is not stable: the order among equal totals is the library's. The handler takes the sort
  as an argument; what is known of it is that it permutes the rows into non-increasing
  order of the total.
\<close>

definition sorts_descending :: "(('a \<times> real) list \<Rightarrow> ('a \<times> real) list) \<Rightarrow> bool" where
  "sorts_descending f = (\<forall>xs. mset (f xs) = mset xs \<and> sorted_wrt (\<lambda>a b. snd b \<le> snd a) (f xs))"

text \<open>
  \<^verbatim>\<open>Series.idxmax()\<close> on a frame with the default index: the position of the first
  occurrence of the maximum, found by a scan that replaces the best value only by a
  strictly greater one. An empty series raises \<^verbatim>\<open>ValueError\<close>.
\<close>

fun idxmax_scan :: "nat \<Rightarrow> real \<Rightarrow> nat \<Rightarrow> real list \<Rightarrow> nat" where
  "idxmax_scan best best_value i [] = best"
| "idxmax_scan best best_value i (x # xs) =
     (if best_value < x then idxmax_scan i x (Suc i) xs
      else idxmax_scan best best_value (Suc i) xs)"

definition idxmax :: "real list \<Rightarrow> exn + nat" where
  "idxmax xs = (case xs of [] \<Rightarrow> Inl ValueError | x # ys \<Rightarrow> Inr (idxmax_scan 0 x 1 ys))"

text \<open>\<^verbatim>\<open>barkla_data[barkla_data['side_effect'] == side_effect]\<close>.\<close>

definition side_effect_group :: "BarklaData list \<Rightarrow> string \<Rightarrow> BarklaData list" where
  "side_effect_group barkla_data side_effect =
     [row \<leftarrow> barkla_data. barkla_side_effect row = Some side_effect]"

text \<open>Position \<open>i\<close> holds the maximum of \<open>xs\<close>, and no earlier position does.\<close>

definition first_maximum :: "real list \<Rightarrow> nat \<Rightarrow> bool" where
  "first_maximum xs i =
     (i < length xs \<and> (\<forall>x \<in> set xs. x \<le> xs ! i) \<and> (\<forall>x \<in> set (take i xs). x < xs ! i))"

text \<open>The loop over the rows of \<^verbatim>\<open>top_side_effects\<close>.\<close>

fun top_results :: "BarklaData list \<Rightarrow> (string \<times> real) list \<Rightarrow> exn + top_side_effect list" where
  "top_results barkla_data [] = Inr []"
| "top_results barkla_data ((side_effect, total_rate) # rows) =
     (let contributing_drug_data = side_effect_group barkla_data side_effect
      in case idxmax (map barkla_combined_rate contributing_drug_data) of
           Inl e \<Rightarrow> Inl e
         | Inr i \<Rightarrow>
             (case top_results barkla_data rows of
                Inl e \<Rightarrow> Inl e
              | Inr rest \<Rightarrow>
                  Inr (\<lparr>top_side_effect = side_effect, top_total_rate = total_rate,
                        top_most_likely_drug = barkla_drug_name (contributing_drug_data ! i)\<rparr>
                       # rest)))"

definition get_most_likely_side_effect ::
  "((string \<times> real) list \<Rightarrow> (string \<times> real) list) \<Rightarrow> db \<Rightarrow> string list
     \<Rightarrow> exn + top_side_effect list" where
  "get_most_likely_side_effect sort_values db drug_list = except_500
     (let barkla_data = most_likely_rows db drug_list in
      if barkla_data = [] then Inr []
      else
        let top_side_effects = take 10 (sort_values (side_effects_rates barkla_data))
        in top_results barkla_data top_side_effects)"

section \<open>\<^verbatim>\<open>/most_likely_side_effects_faers\<close>\<close>

definition faers_rows :: "db \<Rightarrow> string list \<Rightarrow> FAERSData list" where
  "faers_rows db drug_list =
     [row \<leftarrow> tbl_faers_counts_2024 db.
        sql_in (faers_drug_name row) (map Some (map lower drug_list))]"

text \<open>
  \<^verbatim>\<open>groupby(key).head(n)\<close>: the rows that are among the first \<open>n\<close> of their group,
  in the order of the frame. \<open>seen\<close> holds the keys of the rows already passed.
\<close>

fun groupby_head :: "nat \<Rightarrow> ('a \<Rightarrow> 'k) \<Rightarrow> 'k list \<Rightarrow> 'a list \<Rightarrow> 'a list" where
  "groupby_head n key seen [] = []"
| "groupby_head n key seen (x # xs) =
     (if count_list seen (key x) < n then x # groupby_head n key (key x # seen) xs
      else groupby_head n key (key x # seen) xs)"

text \<open>
  The handler has no test for an empty query result. \<^verbatim>\<open>pd.DataFrame([])\<close> is a frame
  without columns, and assigning the six column labels to it raises \<^verbatim>\<open>ValueError\<close>
  (length mismatch). Otherwise the frame is sorted by drug name ascending and rate
  descending (a sort on several columns is stable), and the first five rows of every drug
  are kept.
\<close>

definition get_most_likely_side_effect_faers :: "db \<Rightarrow> string list \<Rightarrow> exn + FAERSData list" where
  "get_most_likely_side_effect_faers db drug_list = except_500
     (let faers_data = faers_rows db drug_list in
      if faers_data = [] then Inl ValueError
      else
        let faers_data = sort_key (\<lambda>row. (faers_drug_name row, - faers_rate row)) faers_data;
            top_results = groupby_head 5 faers_drug_name [] faers_data
        in Inr top_results)"

section \<open>\<^verbatim>\<open>/alternative_search\<close>\<close>

record alternative =
  drug_concept_name :: "string option"

text \<open>The subquery: the (drug, indication) pairs that pass the four filters.\<close>

definition alternative_subquery ::
  "db \<Rightarrow> string \<Rightarrow> string list \<Rightarrow> (string option \<times> string option) list" where
  "alternative_subquery db replaced_drug indication_list =
     [(sider_drug_concept_name row, sider_event_concept_name row).
        row \<leftarrow> tbl_sider_drug_indications db,
        sql_in (sider_event_concept_name row) (map Some indication_list) \<and>
        sql_ne (sider_event_concept_name row) ''Sudden death'' \<and>
        sql_ne (sider_drug_concept_name row) replaced_drug \<and>
        sider_drug_concept_name row \<noteq> None]"

text \<open>\<^verbatim>\<open>func.count(column)\<close>: the number of rows whose column is not null.\<close>

definition sql_count :: "'a option list \<Rightarrow> nat" where
  "sql_count col = length [v \<leftarrow> col. v \<noteq> None]"

text \<open>
  The outer query groups the subquery by drug and keeps the groups whose count of
  indications equals \<^verbatim>\<open>len(indication_list)\<close>. \<open>group_by\<close> lists the groups' keys in
  the store's order. \<^verbatim>\<open>DISTINCT\<close> changes nothing in a list of group keys, and the
  final \<^verbatim>\<open>if alternative_drugs: ... else: []\<close> gives the list of dictionaries either
  way.
\<close>

definition alternative_search ::
  "(string option list \<Rightarrow> string option list) \<Rightarrow> db \<Rightarrow> string \<Rightarrow> string list
     \<Rightarrow> exn + alternative list" where
  "alternative_search group_by db replaced_drug indication_list = except_500
     (let subquery = alternative_subquery db replaced_drug indication_list;
          alternative_drugs =
            [drug \<leftarrow> group_by (map fst subquery).
               sql_count (map snd [r \<leftarrow> subquery. fst r = drug]) = length indication_list]
      in if alternative_drugs \<noteq> []
         then Inr (map (\<lambda>drug. \<lparr>drug_concept_name = drug\<rparr>) alternative_drugs)
         else Inr [])"

section \<open>\<^verbatim>\<open>/ancestor_side_effects\<close>\<close>

text \<open>
  \<^verbatim>\<open>if k not in result: result[k] = []\<close> followed by \<^verbatim>\<open>result[k].append(v)\<close>, on a
  dictionary kept as the list of its items in insertion order.
\<close>

fun dict_append :: "'k \<Rightarrow> 'v \<Rightarrow> ('k \<times> 'v list) list \<Rightarrow> ('k \<times> 'v list) list" where
  "dict_append k v [] = [(k, [v])]"
| "dict_append k v ((k', vs) # items) =
     (if k' = k then (k', vs @ [v]) # items else (k', vs) # dict_append k v items)"

definition group_ancestors ::
  "PTtoHLTMapping list \<Rightarrow> (string option \<times> string option list) list" where
  "group_ancestors ancestor_mappings =
     fold (\<lambda>mapping result.
             dict_append (descendant_concept_name mapping) (ancestor_concept_name mapping) result)
       ancestor_mappings []"

text \<open>
  \<^verbatim>\<open>'/'.join(list(set(value)))\<close>. \<open>list_set\<close> is the order in which the set is
  listed; \<^verbatim>\<open>join\<close> raises \<^verbatim>\<open>TypeError\<close> on an item that is \<^verbatim>\<open>None\<close>.
\<close>

definition join_set ::
  "(string option list \<Rightarrow> string option list) \<Rightarrow> string option list \<Rightarrow> exn + string" where
  "join_set list_set value =
     (case those (list_set value) of
        None \<Rightarrow> Inl TypeError
      | Some names \<Rightarrow> Inr (join ''/'' names))"

fun join_values ::
  "(string option list \<Rightarrow> string option list) \<Rightarrow> ('k \<times> string option list) list
     \<Rightarrow> exn + ('k \<times> string) list" where
  "join_values list_set [] = Inr []"
| "join_values list_set ((key, value) # items) =
     (case join_set list_set value of
        Inl e \<Rightarrow> Inl e
      | Inr label \<Rightarrow>
          (case join_values list_set items of
             Inl e \<Rightarrow> Inl e
           | Inr rest \<Rightarrow> Inr ((key, label) # rest)))"

text \<open>The rows of the second query: the tier rows of the descendants found by the first.\<close>

definition ancestor_mappings :: "db \<Rightarrow> string list \<Rightarrow> PTtoHLTMapping list" where
  "ancestor_mappings db pt_list =
     (let side_effects =
            [row \<leftarrow> tbl_pt_to_hlt_or_hlgt db.
               sql_in (descendant_concept_name row) (map Some pt_list)];
          descendant_names = map descendant_concept_name side_effects
      in [row \<leftarrow> tbl_pt_to_hlt_or_hlgt db.
            sql_in (descendant_concept_name row) descendant_names \<and>
            sql_eq (ancestor_concept_class_id row) ''HLGT''])"

definition get_ancestor_side_effects ::
  "(string option list \<Rightarrow> string option list) \<Rightarrow> db \<Rightarrow> string list
     \<Rightarrow> exn + (string option \<times> string) list" where
  "get_ancestor_side_effects list_set db pt_list = except_500
     (join_values list_set (group_ancestors (ancestor_mappings db pt_list)))"

section \<open>The clinical records\<close>

text \<open>
  \<^verbatim>\<open>patient_id\<close> is a string and \<^verbatim>\<open>SUBJECT_ID\<close> an integer column; how the store
  compares the two is its own business, so the comparison is the argument \<open>matches\<close>.
  A NULL column matches nothing.
\<close>

definition subject_is :: "(int \<Rightarrow> string \<Rightarrow> bool) \<Rightarrow> int option \<Rightarrow> string \<Rightarrow> bool" where
  "subject_is matches col patient_id =
     (case col of None \<Rightarrow> False | Some n \<Rightarrow> matches n patient_id)"

definition find_patient :: "(int \<Rightarrow> string \<Rightarrow> bool) \<Rightarrow> db \<Rightarrow> string \<Rightarrow> Patient option" where
  "find_patient matches db patient_id =
     first [p \<leftarrow> tbl_patients db. subject_is matches (patient_SUBJECT_ID p) patient_id]"

subsection \<open>\<^verbatim>\<open>/patient_portfolio_mimic\<close>\<close>

text \<open>
  This handler has no \<^verbatim>\<open>try\<close> block: the 404 it raises for an unknown patient reaches
  the framework as it is. What the handler makes of a patient that exists (the age from
  the clock, the prescriptions, the response object) is the argument \<open>assemble\<close>.
\<close>

definition get_patient_portfolio_mimic ::
  "(int \<Rightarrow> string \<Rightarrow> bool) \<Rightarrow> (Patient \<Rightarrow> exn + 'r) \<Rightarrow> db \<Rightarrow> string \<Rightarrow> exn + 'r" where
  "get_patient_portfolio_mimic matches assemble db patient_id =
     (case find_patient matches db patient_id of
        None \<Rightarrow> Inl (HTTPException 404 (Text (''Patient with ID '' @ patient_id @ '' not found'')))
      | Some patient \<Rightarrow> assemble patient)"

subsection \<open>\<^verbatim>\<open>/patient_diagnoses_mimic\<close>\<close>

record diagnosis_entry =
  icd9_code :: "string option"
  short_title :: "string option"
  long_title :: "string option"
  hadm_ids :: "int list"

text \<open>The dictionary comprehension: a later row of the same code replaces an earlier one.\<close>

definition icd9_to_titles ::
  "D_Icd list \<Rightarrow> (string option \<rightharpoonup> string option \<times> string option)" where
  "icd9_to_titles diagnoses_with_titles =
     fold (\<lambda>d m. m(icd_ICD9_CODE d \<mapsto> (SHORT_TITLE d, LONG_TITLE d)))
       diagnoses_with_titles Map.empty"

text \<open>\<^verbatim>\<open>d.get(k, [])\<close>.\<close>

definition get_or_empty :: "('k \<rightharpoonup> 'v list) \<Rightarrow> 'k \<Rightarrow> 'v list" where
  "get_or_empty d k = (case d k of None \<Rightarrow> [] | Some l \<Rightarrow> l)"

text \<open>
  One turn of the loop that fills \<^verbatim>\<open>icd9_to_hadm_ids\<close>.
  \<^verbatim>\<open>if d.HADM_ID and d.HADM_ID not in ...\<close> tests the truth value of the admission
  ID: \<^verbatim>\<open>None\<close> is false, and so is the integer 0.
\<close>

definition add_hadm_id ::
  "Diagnosis \<Rightarrow> (string option \<rightharpoonup> int list) \<Rightarrow> (string option \<rightharpoonup> int list)" where
  "add_hadm_id d m =
     (let code = diagnosis_ICD9_CODE d;
          m1 = (if code \<notin> dom m then m(code \<mapsto> []) else m);
          ids = get_or_empty m1 code
      in case diagnosis_HADM_ID d of
           None \<Rightarrow> m1
         | Some h \<Rightarrow> if h \<noteq> 0 \<and> h \<notin> set ids then m1(code \<mapsto> ids @ [h]) else m1)"

definition icd9_to_hadm_ids :: "Diagnosis list \<Rightarrow> (string option \<rightharpoonup> int list)" where
  "icd9_to_hadm_ids diagnoses = fold add_hadm_id diagnoses Map.empty"

definition patient_diagnoses :: "(int \<Rightarrow> string \<Rightarrow> bool) \<Rightarrow> db \<Rightarrow> string \<Rightarrow> Diagnosis list" where
  "patient_diagnoses matches db patient_id =
     [d \<leftarrow> tbl_diagnoses db. subject_is matches (diagnosis_SUBJECT_ID d) patient_id]"

definition diagnosis_of ::
  "(string option \<rightharpoonup> string option \<times> string option) \<Rightarrow> (string option \<rightharpoonup> int list)
     \<Rightarrow> string option \<Rightarrow> diagnosis_entry" where
  "diagnosis_of titles hadm code =
     (let ids = get_or_empty hadm code
      in case titles code of
           Some (short, long) \<Rightarrow>
             \<lparr>icd9_code = code, short_title = short, long_title = long, hadm_ids = ids\<rparr>
         | None \<Rightarrow>
             \<lparr>icd9_code = code, short_title = Some ''Unknown'', long_title = Some ''Unknown'',
              hadm_ids = ids\<rparr>)"

text \<open>
  The 404 for an unknown patient is raised inside the \<^verbatim>\<open>try\<close> block. \<open>list_set\<close> is
  the order in which \<^verbatim>\<open>set(icd9_codes)\<close> is iterated.
\<close>

definition get_patient_diagnoses_mimic ::
  "(int \<Rightarrow> string \<Rightarrow> bool) \<Rightarrow> (string option list \<Rightarrow> string option list) \<Rightarrow> db \<Rightarrow> string
     \<Rightarrow> exn + diagnosis_entry list" where
  "get_patient_diagnoses_mimic matches list_set db patient_id = except_500
     (case find_patient matches db patient_id of
        None \<Rightarrow> Inl (HTTPException 404 (Text (''Patient with ID '' @ patient_id @ '' not found'')))
      | Some patient \<Rightarrow>
          let diagnoses = patient_diagnoses matches db patient_id;
              icd9_codes = map diagnosis_ICD9_CODE diagnoses;
              diagnoses_with_titles = [t \<leftarrow> tbl_d_icd db. sql_in (icd_ICD9_CODE t) icd9_codes]
          in Inr (map (diagnosis_of (icd9_to_titles diagnoses_with_titles)
                         (icd9_to_hadm_ids diagnoses))
                    (list_set icd9_codes)))"

subsection \<open>\<^verbatim>\<open>/admission_details\<close>\<close>

record AdmissionResponse =
  response_hadm_id :: "int option"
  admission_time :: string
  discharge_time :: string
  diagnosis :: string

text \<open>\<^verbatim>\<open>str(x) if x else ""\<close> for a string column.\<close>

definition str_or_empty :: "string option \<Rightarrow> string" where
  "str_or_empty x = (case x of None \<Rightarrow> [] | Some s \<Rightarrow> s)"

definition get_admission_details :: "db \<Rightarrow> int \<Rightarrow> exn + AdmissionResponse" where
  "get_admission_details db hadm_id = except_500
     (case first [a \<leftarrow> tbl_admissions db. sql_eq (admission_HADM_ID a) hadm_id] of
        None \<Rightarrow>
          Inl (HTTPException 404 (Text (''Admission with ID '' @ str_int hadm_id @ '' not found'')))
      | Some admission \<Rightarrow>
          Inr \<lparr>response_hadm_id = admission_HADM_ID admission,
               admission_time = str_or_empty (ADMITTIME admission),
               discharge_time = str_or_empty (DISCHTIME admission),
               diagnosis = str_or_empty (DIAGNOSIS admission)\<rparr>)"

text \<open>Example tables for \<^verbatim>\<open>/culprit_drug\<close>.\<close>

definition zero_rate_db :: db where
  "zero_rate_db = empty_db\<lparr>tbl_barkla_weighted_rate :=
     [\<lparr>barkla_side_effect = Some ''headache'', barkla_drug_name = Some ''aspirin'',
       barkla_combined_rate = 0\<rparr>]\<rparr>"

definition zero_pair_db :: db where
  "zero_pair_db = empty_db\<lparr>tbl_barkla_weighted_rate :=
     [\<lparr>barkla_side_effect = Some ''rash'', barkla_drug_name = Some ''aspirin'',
       barkla_combined_rate = 0\<rparr>,
      \<lparr>barkla_side_effect = Some ''rash'', barkla_drug_name = Some ''warfarin'',
       barkla_combined_rate = 0\<rparr>]\<rparr>"

definition tie_db :: db where
  "tie_db = empty_db\<lparr>tbl_barkla_weighted_rate :=
     [\<lparr>barkla_side_effect = Some ''headache'', barkla_drug_name = Some ''aspirin'',
       barkla_combined_rate = 1\<rparr>,
      \<lparr>barkla_side_effect = Some ''headache'', barkla_drug_name = Some ''ibuprofen'',
       barkla_combined_rate = 2\<rparr>,
      \<lparr>barkla_side_effect = Some ''nausea'', barkla_drug_name = Some ''ibuprofen'',
       barkla_combined_rate = 7\<rparr>,
      \<lparr>barkla_side_effect = Some ''headache'', barkla_drug_name = Some ''warfarin'',
       barkla_combined_rate = 1\<rparr>]\<rparr>"

definition tie_ranking :: "culprit list" where
  "tie_ranking =
     [\<lparr>culprit_drug_name = Some ''ibuprofen'', culprit_combined_rate = 2, culprit_score = 1/2\<rparr>,
      \<lparr>culprit_drug_name = Some ''aspirin'', culprit_combined_rate = 1, culprit_score = 1/4\<rparr>,
      \<lparr>culprit_drug_name = Some ''warfarin'', culprit_combined_rate = 1, culprit_score = 1/4\<rparr>]"

text \<open>Example tables for the two side-effect rankings.\<close>

definition eleven_effects_db :: db where
  "eleven_effects_db = empty_db\<lparr>tbl_barkla_weighted_rate :=
     [\<lparr>barkla_side_effect = Some ''se01'', barkla_drug_name = Some ''aspirin'',
       barkla_combined_rate = 1\<rparr>,
      \<lparr>barkla_side_effect = Some ''se01'', barkla_drug_name = Some ''ibuprofen'',
       barkla_combined_rate = 20\<rparr>,
      \<lparr>barkla_side_effect = Some ''se02'', barkla_drug_name = Some ''aspirin'',
       barkla_combined_rate = 2\<rparr>,
      \<lparr>barkla_side_effect = Some ''se03'', barkla_drug_name = Some ''aspirin'',
       barkla_combined_rate = 3\<rparr>,
      \<lparr>barkla_side_effect = Some ''se04'', barkla_drug_name = Some ''aspirin'',
       barkla_combined_rate = 4\<rparr>,
      \<lparr>barkla_side_effect = Some ''se05'', barkla_drug_name = Some ''aspirin'',
       barkla_combined_rate = 5\<rparr>,
      \<lparr>barkla_side_effect = Some ''se05'', barkla_drug_name = Some ''ibuprofen'',
       barkla_combined_rate = 5\<rparr>,
      \<lparr>barkla_side_effect = Some ''se06'', barkla_drug_name = Some ''aspirin'',
       barkla_combined_rate = 6\<rparr>,
      \<lparr>barkla_side_effect = Some ''se07'', barkla_drug_name = Some ''aspirin'',
       barkla_combined_rate = 7\<rparr>,
      \<lparr>barkla_side_effect = Some ''se08'', barkla_drug_name = Some ''aspirin'',
       barkla_combined_rate = 8\<rparr>,
      \<lparr>barkla_side_effect = Some ''se09'', barkla_drug_name = Some ''aspirin'',
       barkla_combined_rate = 9\<rparr>,
      \<lparr>barkla_side_effect = Some ''se10'', barkla_drug_name = Some ''aspirin'',
       barkla_combined_rate = 10\<rparr>,
      \<lparr>barkla_side_effect = Some ''se11'', barkla_drug_name = Some ''aspirin'',
       barkla_combined_rate = 11\<rparr>,
      \<lparr>barkla_side_effect = Some ''se03'', barkla_drug_name = Some ''warfarin'',
       barkla_combined_rate = 9\<rparr>]\<rparr>"

definition eleven_effects_top :: "top_side_effect list" where
  "eleven_effects_top =
     [\<lparr>top_side_effect = ''se01'', top_total_rate = 21, top_most_likely_drug = Some ''ibuprofen''\<rparr>,
      \<lparr>top_side_effect = ''se11'', top_total_rate = 11, top_most_likely_drug = Some ''aspirin''\<rparr>,
      \<lparr>top_side_effect = ''se05'', top_total_rate = 10, top_most_likely_drug = Some ''aspirin''\<rparr>,
      \<lparr>top_side_effect = ''se10'', top_total_rate = 10, top_most_likely_drug = Some ''aspirin''\<rparr>,
      \<lparr>top_side_effect = ''se09'', top_total_rate = 9, top_most_likely_drug = Some ''aspirin''\<rparr>,
      \<lparr>top_side_effect = ''se08'', top_total_rate = 8, top_most_likely_drug = Some ''aspirin''\<rparr>,
      \<lparr>top_side_effect = ''se07'', top_total_rate = 7, top_most_likely_drug = Some ''aspirin''\<rparr>,
      \<lparr>top_side_effect = ''se06'', top_total_rate = 6, top_most_likely_drug = Some ''aspirin''\<rparr>,
      \<lparr>top_side_effect = ''se04'', top_total_rate = 4, top_most_likely_drug = Some ''aspirin''\<rparr>,
      \<lparr>top_side_effect = ''se03'', top_total_rate = 3, top_most_likely_drug = Some ''aspirin''\<rparr>]"

definition faers_row :: "string \<Rightarrow> string \<Rightarrow> int \<Rightarrow> real \<Rightarrow> FAERSData" where
  "faers_row drug effect n r = \<lparr>faers_drug_name = Some drug, faers_side_effect = Some effect,
     drug_side_effect_occurrence_count = n, case_count_with_drug = 10, faers_rate = r,
     wilson_interval = 1/10\<rparr>"

definition faers_db :: db where
  "faers_db = empty_db\<lparr>tbl_faers_counts_2024 :=
     [faers_row ''ibuprofen'' ''nausea'' 3 (3/10), faers_row ''aspirin'' ''rash'' 1 (1/10),
      faers_row ''aspirin'' ''bleeding'' 6 (6/10), faers_row ''aspirin'' ''dizziness'' 2 (2/10),
      faers_row ''aspirin'' ''tinnitus'' 5 (5/10), faers_row ''aspirin'' ''nausea'' 3 (3/10),
      faers_row ''aspirin'' ''dyspepsia'' 4 (4/10)]\<rparr>"

definition faers_top :: "FAERSData list" where
  "faers_top =
     [faers_row ''aspirin'' ''bleeding'' 6 (6/10), faers_row ''aspirin'' ''tinnitus'' 5 (5/10),
      faers_row ''aspirin'' ''dyspepsia'' 4 (4/10), faers_row ''aspirin'' ''nausea'' 3 (3/10),
      faers_row ''aspirin'' ''dizziness'' 2 (2/10), faers_row ''ibuprofen'' ''nausea'' 3 (3/10)]"

text \<open>Example tables for the clinical records and for the two searches.\<close>

definition decimal_id :: "int \<Rightarrow> string \<Rightarrow> bool" where
  "decimal_id n s = (str_int n = s)"

definition diagnosis_row :: "int \<Rightarrow> int option \<Rightarrow> string option \<Rightarrow> Diagnosis" where
  "diagnosis_row subject hadm code =
     \<lparr>diagnosis_SUBJECT_ID = Some subject, diagnosis_HADM_ID = hadm, diagnosis_ICD9_CODE = code\<rparr>"

definition clinic_db :: db where
  "clinic_db = empty_db\<lparr>
     tbl_patients := [\<lparr>patient_SUBJECT_ID = Some 1, GENDER = Some ''F'',
                       DOB = Some ''1950-01-01 00:00:00''\<rparr>],
     tbl_diagnoses :=
       [diagnosis_row 1 (Some 0) (Some ''4019''), diagnosis_row 1 (Some 100) (Some ''4019''),
        diagnosis_row 1 (Some 100) (Some ''4019''), diagnosis_row 1 None (Some ''25000''),
        diagnosis_row 1 (Some 101) (Some ''25000''), diagnosis_row 2 (Some 200) (Some ''4019''),
        diagnosis_row 1 (Some 102) None],
     tbl_d_icd := [\<lparr>icd_ICD9_CODE = Some ''4019'', SHORT_TITLE = Some ''Hypertension NOS'',
                    LONG_TITLE = Some ''Unspecified essential hypertension''\<rparr>],
     tbl_admissions := [\<lparr>admission_HADM_ID = Some 100, ADMITTIME = Some ''2101-10-20 19:08:00'',
                         DISCHTIME = None, DIAGNOSIS = Some ''SEPSIS''\<rparr>]\<rparr>"

definition clinic_diagnoses :: "diagnosis_entry list" where
  "clinic_diagnoses =
     [\<lparr>icd9_code = Some ''4019'', short_title = Some ''Hypertension NOS'',
       long_title = Some ''Unspecified essential hypertension'', hadm_ids = [100]\<rparr>,
      \<lparr>icd9_code = Some ''25000'', short_title = Some ''Unknown'',
       long_title = Some ''Unknown'', hadm_ids = [101]\<rparr>,
      \<lparr>icd9_code = None, short_title = Some ''Unknown'',
       long_title = Some ''Unknown'', hadm_ids = [102]\<rparr>]"

definition indication :: "string option \<Rightarrow> string option \<Rightarrow> SiderDrugIndications" where
  "indication drug event = \<lparr>sider_drug_concept_name = drug, sider_event_concept_name = event\<rparr>"

definition sider_db :: db where
  "sider_db = empty_db\<lparr>tbl_sider_drug_indications :=
     [indication (Some ''aspirin'') (Some ''Pain''), indication (Some ''aspirin'') (Some ''Fever''),
      indication (Some ''ibuprofen'') (Some ''Pain''), indication (Some ''ibuprofen'') (Some ''Fever''),
      indication (Some ''paracetamol'') (Some ''Pain''), indication (Some ''naproxen'') (Some ''Pain''),
      indication (Some ''naproxen'') (Some ''Pain''), indication None (Some ''Pain''),
      indication (Some ''codeine'') (Some ''Sudden death''),
      indication (Some ''codeine'') (Some ''Pain''), indication (Some ''codeine'') None]\<rparr>"

definition ancestor_row :: "string \<Rightarrow> string \<Rightarrow> string \<Rightarrow> PTtoHLTMapping" where
  "ancestor_row descendant ancestor class_id =
     \<lparr>descendant_concept_name = Some descendant, ancestor_concept_name = Some ancestor,
      ancestor_concept_class_id = Some class_id\<rparr>"

definition meddra_db :: db where
  "meddra_db = empty_db\<lparr>tbl_pt_to_hlt_or_hlgt :=
     [ancestor_row ''Headache'' ''Headaches'' ''HLGT'',
      ancestor_row ''Headache'' ''Headaches NEC'' ''HLT'',
      ancestor_row ''Headache'' ''Neurological disorders NEC'' ''HLGT'',
      ancestor_row ''Headache'' ''Headaches'' ''HLGT'',
      ancestor_row ''Dizziness'' ''Neurological signs and symptoms NEC'' ''HLT'',
      ancestor_row ''Nausea'' ''Gastrointestinal signs and symptoms'' ''HLGT'']\<rparr>"

definition null_ancestor_db :: db where
  "null_ancestor_db = empty_db\<lparr>tbl_pt_to_hlt_or_hlgt :=
     [ancestor_row ''Headache'' ''Headaches'' ''HLGT'',
      \<lparr>descendant_concept_name = Some ''Headache'', ancestor_concept_name = None,
       ancestor_concept_class_id = Some ''HLGT''\<rparr>]\<rparr>"

definition sider_alternatives :: "alternative list" where
  "sider_alternatives =
     [\<lparr>drug_concept_name = Some ''ibuprofen''\<rparr>, \<lparr>drug_concept_name = Some ''naproxen''\<rparr>]"


section \<open>Properties of the catch-all clause and of the sort\<close>

lemma except_500_Inr [simp]: "except_500 (Inr v) = Inr v"
  by (simp add: except_500_def)

lemma except_500_Inl [simp]: "except_500 (Inl e) = Inl (HTTPException 500 (Str e))"
  by (simp add: except_500_def)

lemma mset_sorted_py: "mset (sorted_py key reverse xs) = mset xs"
  by (simp add: sorted_py_def)

lemma sorted_py_descending:
  "sorted_wrt (\<lambda>a b. key b \<le> key a) (sorted_py key True xs)"
proof -
  have "sorted (map key (sort_key key (rev xs)))"
    by (rule sorted_sort_key)
  then have "sorted_wrt (\<lambda>a b. key a \<le> key b) (sort_key key (rev xs))"
    by (simp add: sorted_map)
  then show ?thesis
    by (simp add: sorted_py_def sorted_wrt_rev)
qed

lemma sorted_py_stable:
  "filter (\<lambda>y. key y = k) (sorted_py key reverse xs) = filter (\<lambda>y. key y = k) xs"
proof (cases reverse)
  case True
  have "filter (\<lambda>y. key y = k) (rev (sort_key key (rev xs)))
      = rev (filter (\<lambda>y. key y = k) (sort_key key (rev xs)))"
    by (simp add: rev_filter)
  also have "\<dots> = rev (filter (\<lambda>y. key y = k) (rev xs))"
    by (simp only: sort_key_stable)
  also have "\<dots> = filter (\<lambda>y. key y = k) xs"
    by (simp add: rev_filter)
  finally show ?thesis using True by (simp add: sorted_py_def)
next
  case False
  then show ?thesis by (simp add: sorted_py_def sort_key_stable)
qed

section \<open>\<^verbatim>\<open>/culprit_drug\<close>: the ranking\<close>

lemma culprit_score_of [simp]: "culprit_score (culprit_of rs) = snd rs"
  by (simp add: culprit_of_def)

lemma sum_scored:
  "t \<noteq> 0 \<Longrightarrow> sum_list (map snd (scored t rows)) = sum_list (map barkla_combined_rate rows) / t"
  by (induction rows) (simp_all add: scored_def add_divide_distrib)

lemma get_culprit_drug_cases:
  "get_culprit_drug db side_effect drug_list =
     (let rows = culprit_rows db side_effect drug_list;
          t = sum_list (map barkla_combined_rate rows) in
      if rows = [] then Inr []
      else if t = 0 then Inl (HTTPException 500 (Str ZeroDivisionError))
      else Inr (map culprit_of (sorted_py snd True (scored t rows))))"
  by (simp add: get_culprit_drug_def Let_def)

text \<open>
  C3, as the code has it. The claim asks for a guard on the division when the retrieved
  rates sum to 0. The handler has none: with at least one row retrieved and a total of 0,
  \<^verbatim>\<open>row.combined_rate / total_combined_rate\<close> raises \<^verbatim>\<open>ZeroDivisionError\<close>, the
  catch-all clause turns it into HTTP 500, and no score is assigned.
\<close>

theorem culprit_zero_total_fails:
  assumes "culprit_rows db side_effect drug_list \<noteq> []"
    and "sum_list (map barkla_combined_rate (culprit_rows db side_effect drug_list)) = 0"
  shows "get_culprit_drug db side_effect drug_list =
           Inl (HTTPException 500 (Str ZeroDivisionError))"
  using assms by (simp add: get_culprit_drug_cases)

theorem culprit_zero_total_fails_witness:
  "culprit_rows zero_pair_db ''Rash'' [''Aspirin'', ''Warfarin''] \<noteq> [] \<and>
   sum_list (map barkla_combined_rate
     (culprit_rows zero_pair_db ''Rash'' [''Aspirin'', ''Warfarin''])) = 0 \<and>
   get_culprit_drug zero_pair_db ''Rash'' [''Aspirin'', ''Warfarin''] =
     Inl (HTTPException 500 (Str ZeroDivisionError))"
proof -
  have a: "culprit_rows zero_pair_db ''Rash'' [''Aspirin'', ''Warfarin''] \<noteq> []"
    by code_simp
  have b: "sum_list (map barkla_combined_rate
     (culprit_rows zero_pair_db ''Rash'' [''Aspirin'', ''Warfarin''])) = 0"
    by code_simp
  from culprit_zero_total_fails [OF a b] a b show ?thesis by simp
qed

text \<open>
  C3, as the claim states it, fails: one retrieved row of rate 0 is a non-empty row set
  whose rates sum to 0, and the request ends in the division error, surfaced as HTTP 500.
\<close>

theorem culprit_zero_total_counterexample:
  "culprit_rows zero_rate_db ''Headache'' [''Aspirin''] \<noteq> [] \<and>
   sum_list (map barkla_combined_rate (culprit_rows zero_rate_db ''Headache'' [''Aspirin''])) = 0 \<and>
   get_culprit_drug zero_rate_db ''Headache'' [''Aspirin''] =
     Inl (HTTPException 500 (Str ZeroDivisionError))"
  by code_simp

text \<open>
  C5: whenever \<^verbatim>\<open>/culprit_drug\<close> returns a non-empty list, the scores of its entries
  sum to 1 (in exact arithmetic; a non-empty list is returned only when the total rate is
  not 0).
\<close>

theorem culprit_scores_sum_to_one:
  assumes "get_culprit_drug db side_effect drug_list = Inr res" and "res \<noteq> []"
  shows "sum_list (map culprit_score res) = 1"
proof -
  define rows where "rows = culprit_rows db side_effect drug_list"
  define t where "t = sum_list (map barkla_combined_rate rows)"
  from assms have ne: "rows \<noteq> []" and t0: "t \<noteq> 0"
    and res: "res = map culprit_of (sorted_py snd True (scored t rows))"
    by (auto simp: get_culprit_drug_cases Let_def rows_def t_def split: if_splits)
  have "sum_list (map culprit_score res) = sum_list (map snd (sorted_py snd True (scored t rows)))"
    by (simp add: res comp_def)
  also have "\<dots> = sum_mset (image_mset snd (mset (sorted_py snd True (scored t rows))))"
    by (metis mset_map sum_mset_sum_list)
  also have "\<dots> = sum_mset (image_mset snd (mset (scored t rows)))"
    by (simp only: mset_sorted_py)
  also have "\<dots> = sum_list (map snd (scored t rows))"
    by (metis mset_map sum_mset_sum_list)
  also have "\<dots> = t / t"
    using t0 by (simp add: sum_scored t_def)
  finally show ?thesis using t0 by simp
qed

theorem culprit_scores_sum_to_one_witness:
  "get_culprit_drug tie_db ''Headache'' [''Aspirin'', ''IBUPROFEN'', ''warfarin''] = Inr tie_ranking \<and>
   tie_ranking \<noteq> [] \<and> sum_list (map culprit_score tie_ranking) = 1"
proof -
  have e: "get_culprit_drug tie_db ''Headache'' [''Aspirin'', ''IBUPROFEN'', ''warfarin'']
             = Inr tie_ranking"
    by code_simp
  have ne: "tie_ranking \<noteq> []"
    by (simp add: tie_ranking_def)
  from culprit_scores_sum_to_one [OF e ne] e ne show ?thesis by simp
qed

text \<open>
  C6: the list returned by \<^verbatim>\<open>/culprit_drug\<close> is non-increasing in score, the entries
  of any one score stand in the order in which their rows were retrieved, and a query that
  retrieves no row returns the empty list.
\<close>

theorem culprit_ranking:
  "(culprit_rows db side_effect drug_list = [] \<longrightarrow>
      get_culprit_drug db side_effect drug_list = Inr []) \<and>
   (\<forall>res. get_culprit_drug db side_effect drug_list = Inr res \<longrightarrow>
      sorted_wrt (\<lambda>a b. culprit_score b \<le> culprit_score a) res \<and>
      (\<forall>k. filter (\<lambda>c. culprit_score c = k) res =
           filter (\<lambda>c. culprit_score c = k)
             (map culprit_of
               (scored (sum_list (map barkla_combined_rate (culprit_rows db side_effect drug_list)))
                 (culprit_rows db side_effect drug_list)))))"
proof (intro conjI allI impI)
  assume "culprit_rows db side_effect drug_list = []"
  then show "get_culprit_drug db side_effect drug_list = Inr []"
    by (simp add: get_culprit_drug_cases)
next
  fix res
  assume r: "get_culprit_drug db side_effect drug_list = Inr res"
  define rows where "rows = culprit_rows db side_effect drug_list"
  define t where "t = sum_list (map barkla_combined_rate rows)"
  from r have res: "res = map culprit_of (sorted_py snd True (scored t rows))"
    by (auto simp: get_culprit_drug_cases Let_def rows_def t_def sorted_py_def scored_def
        split: if_splits)
  show "sorted_wrt (\<lambda>a b. culprit_score b \<le> culprit_score a) res"
    using sorted_py_descending [of snd "scored t rows"]
    by (simp add: res sorted_wrt_map)
  fix k
  have "filter (\<lambda>c. culprit_score c = k) res
      = map culprit_of (filter (\<lambda>y. snd y = k) (sorted_py snd True (scored t rows)))"
    by (simp add: res filter_map comp_def)
  also have "\<dots> = map culprit_of (filter (\<lambda>y. snd y = k) (scored t rows))"
    by (simp only: sorted_py_stable)
  also have "\<dots> = filter (\<lambda>c. culprit_score c = k) (map culprit_of (scored t rows))"
    by (simp add: filter_map comp_def)
  finally show "filter (\<lambda>c. culprit_score c = k) res =
           filter (\<lambda>c. culprit_score c = k)
             (map culprit_of
               (scored (sum_list (map barkla_combined_rate (culprit_rows db side_effect drug_list)))
                 (culprit_rows db side_effect drug_list)))"
    by (simp add: rows_def t_def)
qed

theorem culprit_ranking_witness:
  "culprit_rows empty_db ''Headache'' [''aspirin''] = [] \<and>
   get_culprit_drug empty_db ''Headache'' [''aspirin''] = Inr [] \<and>
   get_culprit_drug tie_db ''Headache'' [''Aspirin'', ''IBUPROFEN'', ''warfarin''] = Inr tie_ranking \<and>
   sorted_wrt (\<lambda>a b. culprit_score b \<le> culprit_score a) tie_ranking \<and>
   filter (\<lambda>c. culprit_score c = 1/4) tie_ranking =
     [\<lparr>culprit_drug_name = Some ''aspirin'', culprit_combined_rate = 1, culprit_score = 1/4\<rparr>,
      \<lparr>culprit_drug_name = Some ''warfarin'', culprit_combined_rate = 1, culprit_score = 1/4\<rparr>]"
proof -
  have n: "culprit_rows empty_db ''Headache'' [''aspirin''] = []"
    by code_simp
  have e: "get_culprit_drug tie_db ''Headache'' [''Aspirin'', ''IBUPROFEN'', ''warfarin'']
             = Inr tie_ranking"
    by code_simp
  have f: "filter (\<lambda>c. culprit_score c = 1/4)
             (map culprit_of
               (scored (sum_list (map barkla_combined_rate
                   (culprit_rows tie_db ''Headache'' [''Aspirin'', ''IBUPROFEN'', ''warfarin''])))
                 (culprit_rows tie_db ''Headache'' [''Aspirin'', ''IBUPROFEN'', ''warfarin''])))
           = [\<lparr>culprit_drug_name = Some ''aspirin'', culprit_combined_rate = 1, culprit_score = 1/4\<rparr>,
              \<lparr>culprit_drug_name = Some ''warfarin'', culprit_combined_rate = 1, culprit_score = 1/4\<rparr>]"
    by code_simp
  from culprit_ranking [of empty_db "''Headache''" "[''aspirin'']"] n
  have "get_culprit_drug empty_db ''Headache'' [''aspirin''] = Inr []"
    by blast
  moreover from culprit_ranking [of tie_db "''Headache''" "[''Aspirin'', ''IBUPROFEN'', ''warfarin'']"] e
  have "sorted_wrt (\<lambda>a b. culprit_score b \<le> culprit_score a) tie_ranking \<and>
        filter (\<lambda>c. culprit_score c = 1/4) tie_ranking
          = filter (\<lambda>c. culprit_score c = 1/4)
             (map culprit_of
               (scored (sum_list (map barkla_combined_rate
                   (culprit_rows tie_db ''Headache'' [''Aspirin'', ''IBUPROFEN'', ''warfarin''])))
                 (culprit_rows tie_db ''Headache'' [''Aspirin'', ''IBUPROFEN'', ''warfarin''])))"
    by blast
  ultimately show ?thesis using n e f by simp
qed

section \<open>\<^verbatim>\<open>/most_likely_side_effects\<close>: the top ten\<close>

lemma idxmax_scan_invariant:
  assumes "length pre = i" and "best < i" and "pre ! best = bv"
    and "\<forall>x \<in> set pre. x \<le> bv" and "\<forall>x \<in> set (take best pre). x < bv"
  shows "first_maximum (pre @ xs) (idxmax_scan best bv i xs)"
  using assms
proof (induction xs arbitrary: pre best bv i)
  case Nil
  then show ?case by (simp add: first_maximum_def)
next
  case (Cons x xs)
  show ?case
  proof (cases "bv < x")
    case True
    have "first_maximum ((pre @ [x]) @ xs) (idxmax_scan i x (Suc i) xs)"
    proof (rule Cons.IH)
      show "length (pre @ [x]) = Suc i" using Cons.prems by simp
      show "i < Suc i" by simp
      show "(pre @ [x]) ! i = x" using Cons.prems by (simp add: nth_append)
      show "\<forall>y \<in> set (pre @ [x]). y \<le> x" using Cons.prems True by fastforce
      show "\<forall>y \<in> set (take i (pre @ [x])). y < x" using Cons.prems True by fastforce
    qed
    with True show ?thesis by simp
  next
    case False
    have "first_maximum ((pre @ [x]) @ xs) (idxmax_scan best bv (Suc i) xs)"
    proof (rule Cons.IH)
      show "length (pre @ [x]) = Suc i" using Cons.prems by simp
      show "best < Suc i" using Cons.prems by simp
      show "(pre @ [x]) ! best = bv" using Cons.prems by (simp add: nth_append)
      show "\<forall>y \<in> set (pre @ [x]). y \<le> bv" using Cons.prems False by auto
      show "\<forall>y \<in> set (take best (pre @ [x])). y < bv" using Cons.prems by simp
    qed
    with False show ?thesis by simp
  qed
qed

lemma idxmax_first_maximum:
  assumes "xs \<noteq> []"
  shows "\<exists>i. idxmax xs = Inr i \<and> first_maximum xs i"
proof -
  from assms obtain x ys where xs: "xs = x # ys" by (cases xs) auto
  have "first_maximum ([x] @ ys) (idxmax_scan 0 x 1 ys)"
    by (rule idxmax_scan_invariant) simp_all
  then show ?thesis by (simp add: xs idxmax_def)
qed

lemma top_results_ok:
  assumes "\<forall>st \<in> set rows. side_effect_group data (fst st) \<noteq> []"
  shows "\<exists>res. top_results data rows = Inr res \<and>
           map top_total_rate res = map snd rows \<and>
           (\<forall>e \<in> set res. (top_side_effect e, top_total_rate e) \<in> set rows \<and>
              (\<exists>i. first_maximum
                      (map barkla_combined_rate (side_effect_group data (top_side_effect e))) i \<and>
                   top_most_likely_drug e =
                     barkla_drug_name (side_effect_group data (top_side_effect e) ! i)))"
  using assms
proof (induction rows)
  case Nil
  then show ?case by simp
next
  case (Cons st rows)
  obtain s t where st: "st = (s, t)" by (cases st)
  from Cons.prems have "\<forall>st \<in> set rows. side_effect_group data (fst st) \<noteq> []" by simp
  from Cons.IH [OF this] obtain rest where rest: "top_results data rows = Inr rest"
    and rest_rates: "map top_total_rate rest = map snd rows"
    and rest_ok: "\<forall>e \<in> set rest. (top_side_effect e, top_total_rate e) \<in> set rows \<and>
              (\<exists>i. first_maximum
                      (map barkla_combined_rate (side_effect_group data (top_side_effect e))) i \<and>
                   top_most_likely_drug e =
                     barkla_drug_name (side_effect_group data (top_side_effect e) ! i))"
    by blast
  from Cons.prems st have "map barkla_combined_rate (side_effect_group data s) \<noteq> []" by simp
  from idxmax_first_maximum [OF this] obtain i
    where i: "idxmax (map barkla_combined_rate (side_effect_group data s)) = Inr i"
      and fm: "first_maximum (map barkla_combined_rate (side_effect_group data s)) i"
    by blast
  define e where "e = \<lparr>top_side_effect = s, top_total_rate = t,
     top_most_likely_drug = barkla_drug_name (side_effect_group data s ! i)\<rparr>"
  have r: "top_results data (st # rows) = Inr (e # rest)"
    using i rest by (simp add: st e_def)
  have "(top_side_effect e, top_total_rate e) \<in> set (st # rows) \<and>
        (\<exists>i. first_maximum
                (map barkla_combined_rate (side_effect_group data (top_side_effect e))) i \<and>
             top_most_likely_drug e =
               barkla_drug_name (side_effect_group data (top_side_effect e) ! i))"
    using fm by (auto simp: e_def st)
  moreover have "map top_total_rate (e # rest) = map snd (st # rows)"
    using rest_rates by (simp add: e_def st)
  ultimately show ?case using r rest_ok by auto
qed

lemma side_effects_rates_entry:
  assumes "st \<in> set (side_effects_rates data)"
  shows "snd st = sum_list (map barkla_combined_rate (side_effect_group data (fst st))) \<and>
         side_effect_group data (fst st) \<noteq> []"
proof -
  from assms obtain s where s: "s \<in> set [s. Some s \<leftarrow> map barkla_side_effect data]"
    and st: "st = (s, sum_list (map barkla_combined_rate (side_effect_group data s)))"
    by (auto simp: side_effects_rates_def side_effect_group_def)
  from s obtain row where "row \<in> set data" "barkla_side_effect row = Some s"
    by (auto split: option.splits)
  then have "side_effect_group data s \<noteq> []"
    by (auto simp: side_effect_group_def filter_empty_conv)
  with st show ?thesis by simp
qed

lemma sorts_descending_set: "sorts_descending f \<Longrightarrow> set (f xs) = set xs"
  by (metis sorts_descending_def mset_eq_setD)

lemma sorts_descending_sorted_py: "sorts_descending (sorted_py snd True)"
  by (simp add: sorts_descending_def mset_sorted_py sorted_py_descending)

text \<open>
  C7: \<^verbatim>\<open>/most_likely_side_effects\<close> returns at most 10 entries, in non-increasing
  order of total rate; the total rate of an entry is the sum of the combined rates of the
  retrieved rows with its side effect; and its most likely drug is the drug of the first
  retrieved row of that side effect whose combined rate is the maximum of the group. This
  holds whatever order the library's sort gives to equal totals.
\<close>

theorem most_likely_side_effects_top_ten:
  assumes "sorts_descending sort_values"
  shows "\<exists>res. get_most_likely_side_effect sort_values db drug_list = Inr res \<and>
           length res \<le> 10 \<and>
           sorted_wrt (\<lambda>a b. top_total_rate b \<le> top_total_rate a) res \<and>
           (\<forall>e \<in> set res.
              top_total_rate e = sum_list (map barkla_combined_rate
                (side_effect_group (most_likely_rows db drug_list) (top_side_effect e))) \<and>
              (\<exists>i. first_maximum (map barkla_combined_rate
                      (side_effect_group (most_likely_rows db drug_list) (top_side_effect e))) i \<and>
                   top_most_likely_drug e = barkla_drug_name
                      (side_effect_group (most_likely_rows db drug_list) (top_side_effect e) ! i)))"
proof (cases "most_likely_rows db drug_list = []")
  case True
  then have "get_most_likely_side_effect sort_values db drug_list = Inr []"
    by (simp add: get_most_likely_side_effect_def)
  then show ?thesis by simp
next
  case False
  define data where "data = most_likely_rows db drug_list"
  define top where "top = take 10 (sort_values (side_effects_rates data))"
  have sub: "set top \<subseteq> set (side_effects_rates data)"
    using sorts_descending_set [OF assms, of "side_effects_rates data"]
      set_take_subset [of 10 "sort_values (side_effects_rates data)"]
    by (simp add: top_def)
  have ne: "\<forall>st \<in> set top. side_effect_group data (fst st) \<noteq> []"
    using sub side_effects_rates_entry by blast
  from top_results_ok [OF ne] obtain res where res: "top_results data top = Inr res"
    and rates: "map top_total_rate res = map snd top"
    and ok: "\<forall>e \<in> set res. (top_side_effect e, top_total_rate e) \<in> set top \<and>
              (\<exists>i. first_maximum
                      (map barkla_combined_rate (side_effect_group data (top_side_effect e))) i \<and>
                   top_most_likely_drug e =
                     barkla_drug_name (side_effect_group data (top_side_effect e) ! i))"
    by blast
  have r: "get_most_likely_side_effect sort_values db drug_list = Inr res"
    using False res by (simp add: get_most_likely_side_effect_def Let_def data_def top_def)
  have "length res = length top"
    using rates by (metis length_map)
  then have len: "length res \<le> 10"
    by (simp add: top_def)
  have "sorted_wrt (\<lambda>a b. snd b \<le> snd a) (sort_values (side_effects_rates data))"
    using assms by (simp add: sorts_descending_def)
  then have "sorted_wrt (\<lambda>a b. snd b \<le> snd a) top"
    unfolding top_def by (rule sorted_wrt_take)
  then have "sorted_wrt (\<lambda>a b. b \<le> a) (map snd top)"
    by (simp add: sorted_wrt_map)
  then have "sorted_wrt (\<lambda>a b. b \<le> a) (map top_total_rate res)"
    by (simp add: rates)
  then have srt: "sorted_wrt (\<lambda>a b. top_total_rate b \<le> top_total_rate a) res"
    by (simp add: sorted_wrt_map)
  have sum: "top_total_rate e =
      sum_list (map barkla_combined_rate (side_effect_group data (top_side_effect e)))"
    if "e \<in> set res" for e
  proof -
    from ok that have "(top_side_effect e, top_total_rate e) \<in> set (side_effects_rates data)"
      using sub by blast
    from side_effects_rates_entry [OF this] show ?thesis by simp
  qed
  from r len srt sum ok show ?thesis
    unfolding data_def by blast
qed

theorem most_likely_side_effects_top_ten_witness:
  "sorts_descending (sorted_py snd True :: (string \<times> real) list \<Rightarrow> (string \<times> real) list) \<and>
   get_most_likely_side_effect (sorted_py snd True) eleven_effects_db [''Aspirin'', ''Ibuprofen'']
     = Inr eleven_effects_top \<and>
   length eleven_effects_top \<le> 10 \<and>
   sorted_wrt (\<lambda>a b. top_total_rate b \<le> top_total_rate a) eleven_effects_top \<and>
   (10::real) = sum_list (map barkla_combined_rate
      (side_effect_group (most_likely_rows eleven_effects_db [''Aspirin'', ''Ibuprofen'']) ''se05''))"
proof -
  have h: "sorts_descending (sorted_py snd True :: (string \<times> real) list \<Rightarrow> (string \<times> real) list)"
    by (rule sorts_descending_sorted_py)
  have e: "get_most_likely_side_effect (sorted_py snd True) eleven_effects_db
             [''Aspirin'', ''Ibuprofen''] = Inr eleven_effects_top"
    by code_simp
  have m: "\<lparr>top_side_effect = ''se05'', top_total_rate = 10,
            top_most_likely_drug = Some ''aspirin''\<rparr> \<in> set eleven_effects_top"
    by (simp add: eleven_effects_top_def)
  from most_likely_side_effects_top_ten [OF h, of eleven_effects_db "[''Aspirin'', ''Ibuprofen'']"] e
  have p: "length eleven_effects_top \<le> 10 \<and>
           sorted_wrt (\<lambda>a b. top_total_rate b \<le> top_total_rate a) eleven_effects_top \<and>
           (\<forall>e \<in> set eleven_effects_top.
              top_total_rate e = sum_list (map barkla_combined_rate
                (side_effect_group (most_likely_rows eleven_effects_db [''Aspirin'', ''Ibuprofen''])
                   (top_side_effect e))))"
    by auto
  from p m have "top_total_rate \<lparr>top_side_effect = ''se05'', top_total_rate = 10,
            top_most_likely_drug = Some ''aspirin''\<rparr> = sum_list (map barkla_combined_rate
                (side_effect_group (most_likely_rows eleven_effects_db [''Aspirin'', ''Ibuprofen''])
                   (top_side_effect \<lparr>top_side_effect = ''se05'', top_total_rate = 10,
            top_most_likely_drug = Some ''aspirin''\<rparr>)))"
    by blast
  then have "(10::real) = sum_list (map barkla_combined_rate
      (side_effect_group (most_likely_rows eleven_effects_db [''Aspirin'', ''Ibuprofen'']) ''se05''))"
    by simp
  with h e p show ?thesis by simp
qed

section \<open>\<^verbatim>\<open>/most_likely_side_effects_faers\<close>: five rows per drug\<close>

lemma groupby_head_set: "set (groupby_head n key seen xs) \<subseteq> set xs"
  by (induction xs arbitrary: seen) auto

lemma groupby_head_sorted_wrt:
  "sorted_wrt P xs \<Longrightarrow> sorted_wrt P (groupby_head n key seen xs)"
proof (induction xs arbitrary: seen)
  case Nil
  then show ?case by simp
next
  case (Cons x xs)
  then show ?case
    using groupby_head_set [of n key "key x # seen" xs] by auto
qed

lemma groupby_head_count:
  "length (filter (\<lambda>r. key r = k) (groupby_head n key seen xs)) \<le> n - count_list seen k"
proof (induction xs arbitrary: seen)
  case Nil
  then show ?case by simp
next
  case (Cons x xs)
  have ih: "length (filter (\<lambda>r. key r = k) (groupby_head n key (key x # seen) xs))
              \<le> n - count_list (key x # seen) k"
    by (rule Cons.IH)
  show ?case
  proof (cases "key x = k")
    case True
    with ih show ?thesis by auto
  next
    case False
    with ih show ?thesis by auto
  qed
qed

lemma get_most_likely_side_effect_faers_cases:
  "get_most_likely_side_effect_faers db drug_list =
     (if faers_rows db drug_list = [] then Inl (HTTPException 500 (Str ValueError))
      else Inr (groupby_head 5 faers_drug_name []
                 (sort_key (\<lambda>row. (faers_drug_name row, - faers_rate row))
                    (faers_rows db drug_list))))"
  by (simp add: get_most_likely_side_effect_faers_def Let_def)

text \<open>
  Whenever the query matches no row, the handler fails: the column labels cannot be
  assigned to the empty frame, and the catch-all clause answers HTTP 500.
\<close>

lemma faers_no_rows:
  "faers_rows db drug_list = [] \<Longrightarrow>
   get_most_likely_side_effect_faers db drug_list = Inl (HTTPException 500 (Str ValueError))"
  by (simp add: get_most_likely_side_effect_faers_cases)

text \<open>
  C2, at a drug list that matches no row of the table: the claim says the empty list is
  returned; the handler answers HTTP 500.
\<close>

theorem faers_no_match_fails:
  "faers_rows faers_db [''Warfarin''] = [] \<and>
   get_most_likely_side_effect_faers faers_db [''Warfarin'']
     = Inl (HTTPException 500 (Str ValueError))"
  by code_simp

text \<open>
  C8: when the query matches at least one row, \<^verbatim>\<open>/most_likely_side_effects_faers\<close>
  returns at most 5 records of any one drug name, the drug names ascend through the list,
  and the rates of the records of one drug are non-increasing.
\<close>

theorem faers_top_five:
  assumes "faers_rows db drug_list \<noteq> []"
  shows "\<exists>res. get_most_likely_side_effect_faers db drug_list = Inr res \<and>
           (\<forall>d. length (filter (\<lambda>r. faers_drug_name r = d) res) \<le> 5) \<and>
           sorted (map faers_drug_name res) \<and>
           (\<forall>d. sorted_wrt (\<lambda>a b. b \<le> a)
                  (map faers_rate (filter (\<lambda>r. faers_drug_name r = d) res)))"
proof -
  define frame where
    "frame = sort_key (\<lambda>row. (faers_drug_name row, - faers_rate row)) (faers_rows db drug_list)"
  define res where "res = groupby_head 5 faers_drug_name [] frame"
  have r: "get_most_likely_side_effect_faers db drug_list = Inr res"
    using assms by (simp add: get_most_likely_side_effect_faers_cases res_def frame_def)
  have "sorted (map (\<lambda>row. (faers_drug_name row, - faers_rate row)) frame)"
    unfolding frame_def by (rule sorted_sort_key)
  then have "sorted_wrt (\<lambda>a b. (faers_drug_name a, - faers_rate a)
                                \<le> (faers_drug_name b, - faers_rate b)) frame"
    by (simp add: sorted_map)
  then have s: "sorted_wrt (\<lambda>a b. (faers_drug_name a, - faers_rate a)
                                   \<le> (faers_drug_name b, - faers_rate b)) res"
    unfolding res_def by (rule groupby_head_sorted_wrt)
  have c: "length (filter (\<lambda>r. faers_drug_name r = d) res) \<le> 5" for d
    using groupby_head_count [of faers_drug_name d 5 "[]" frame] by (simp add: res_def)
  have "sorted_wrt (\<lambda>a b. faers_drug_name a \<le> faers_drug_name b) res"
    by (rule sorted_wrt_mono_rel [OF _ s]) (auto simp: less_eq_prod_def)
  then have n: "sorted (map faers_drug_name res)"
    by (simp add: sorted_map)
  have g: "sorted_wrt (\<lambda>a b. b \<le> a)
             (map faers_rate (filter (\<lambda>r. faers_drug_name r = d) res))" for d
  proof -
    have "sorted_wrt (\<lambda>a b. (faers_drug_name a, - faers_rate a)
                             \<le> (faers_drug_name b, - faers_rate b))
            (filter (\<lambda>r. faers_drug_name r = d) res)"
      using s by (rule sorted_wrt_filter)
    then have "sorted_wrt (\<lambda>a b. faers_rate b \<le> faers_rate a)
                 (filter (\<lambda>r. faers_drug_name r = d) res)"
      by (rule sorted_wrt_mono_rel [rotated]) (auto simp: less_eq_prod_def)
    then show ?thesis by (simp add: sorted_wrt_map)
  qed
  from r c n g show ?thesis by blast
qed

theorem faers_top_five_witness:
  "faers_rows faers_db [''Aspirin'', ''Ibuprofen''] \<noteq> [] \<and>
   get_most_likely_side_effect_faers faers_db [''Aspirin'', ''Ibuprofen''] = Inr faers_top \<and>
   length (filter (\<lambda>r. faers_drug_name r = Some ''aspirin'') faers_top) \<le> 5 \<and>
   sorted (map faers_drug_name faers_top) \<and>
   sorted_wrt (\<lambda>a b. b \<le> a)
     (map faers_rate (filter (\<lambda>r. faers_drug_name r = Some ''aspirin'') faers_top))"
proof -
  have a: "faers_rows faers_db [''Aspirin'', ''Ibuprofen''] \<noteq> []"
    by code_simp
  have e: "get_most_likely_side_effect_faers faers_db [''Aspirin'', ''Ibuprofen''] = Inr faers_top"
    by code_simp
  from faers_top_five [OF a] e
  have "(\<forall>d. length (filter (\<lambda>r. faers_drug_name r = d) faers_top) \<le> 5) \<and>
        sorted (map faers_drug_name faers_top) \<and>
        (\<forall>d. sorted_wrt (\<lambda>a b. b \<le> a)
               (map faers_rate (filter (\<lambda>r. faers_drug_name r = d) faers_top)))"
    by auto
  with a e show ?thesis by blast
qed

section \<open>\<^verbatim>\<open>/alternative_search\<close>: the exact count\<close>

lemma subquery_group_count:
  assumes "d \<noteq> replaced_drug"
  shows "sql_count (map snd
           [r \<leftarrow> [(sider_drug_concept_name row, sider_event_concept_name row).
                  row \<leftarrow> rows,
                  sql_in (sider_event_concept_name row) (map Some indication_list) \<and>
                  sql_ne (sider_event_concept_name row) ''Sudden death'' \<and>
                  sql_ne (sider_drug_concept_name row) replaced_drug \<and>
                  sider_drug_concept_name row \<noteq> None]. fst r = Some d])
       = length [row \<leftarrow> rows. sider_drug_concept_name row = Some d \<and>
                   (\<exists>i \<in> set indication_list. sider_event_concept_name row = Some i) \<and>
                   sider_event_concept_name row \<noteq> Some ''Sudden death'']"
  using assms
  by (induction rows) (auto simp: sql_count_def sql_in_def sql_ne_def split: option.splits)

lemma subquery_keys:
  "x \<in> set (map fst
       [(sider_drug_concept_name row, sider_event_concept_name row).
                  row \<leftarrow> rows,
                  sql_in (sider_event_concept_name row) (map Some indication_list) \<and>
                  sql_ne (sider_event_concept_name row) ''Sudden death'' \<and>
                  sql_ne (sider_drug_concept_name row) replaced_drug \<and>
                  sider_drug_concept_name row \<noteq> None])
   \<longleftrightarrow> (\<exists>d. x = Some d \<and> d \<noteq> replaced_drug \<and>
         [row \<leftarrow> rows. sider_drug_concept_name row = Some d \<and>
                   (\<exists>i \<in> set indication_list. sider_event_concept_name row = Some i) \<and>
                   sider_event_concept_name row \<noteq> Some ''Sudden death''] \<noteq> [])"
  by (induction rows) (auto simp: sql_in_def sql_ne_def split: option.splits)

text \<open>
  C4: \<^verbatim>\<open>indication_list\<close> is a required query parameter, so the list that reaches the
  handler holds at least one indication. For every replaced drug and every such list, a
  drug is in the result exactly when it is not null, is not the replaced drug, and the
  number of its rows whose indication is in the required list and is not
  \<^verbatim>\<open>'Sudden death'\<close> equals the length of the list; the result has no duplicates.
  This holds whatever order the store gives to the groups.
\<close>

theorem alternative_search_exact_count:
  assumes "enumerates group_by" and "indication_list \<noteq> []"
  shows "\<exists>res. alternative_search group_by db replaced_drug indication_list = Inr res \<and>
           distinct res \<and>
           (\<forall>x. \<lparr>drug_concept_name = x\<rparr> \<in> set res \<longleftrightarrow>
              (\<exists>d. x = Some d \<and> d \<noteq> replaced_drug \<and>
                 length [row \<leftarrow> tbl_sider_drug_indications db.
                           sider_drug_concept_name row = Some d \<and>
                           (\<exists>i \<in> set indication_list. sider_event_concept_name row = Some i) \<and>
                           sider_event_concept_name row \<noteq> Some ''Sudden death'']
                   = length indication_list))"
proof -
  define subquery where "subquery = alternative_subquery db replaced_drug indication_list"
  define drugs where "drugs = [drug \<leftarrow> group_by (map fst subquery).
      sql_count (map snd [r \<leftarrow> subquery. fst r = drug]) = length indication_list]"
  define res where "res = map (\<lambda>drug. \<lparr>drug_concept_name = drug\<rparr>) drugs"
  have r: "alternative_search group_by db replaced_drug indication_list = Inr res"
    by (simp add: alternative_search_def Let_def res_def drugs_def subquery_def)
  have "distinct (group_by (map fst subquery))"
    using assms(1) by (simp add: enumerates_def)
  then have "distinct drugs"
    by (simp add: drugs_def)
  then have d: "distinct res"
    by (simp add: res_def distinct_map inj_on_def)
  have keys: "set (group_by (map fst subquery)) = set (map fst subquery)"
    using assms(1) by (simp add: enumerates_def)
  have m: "\<lparr>drug_concept_name = x\<rparr> \<in> set res \<longleftrightarrow>
              (\<exists>d. x = Some d \<and> d \<noteq> replaced_drug \<and>
                 length [row \<leftarrow> tbl_sider_drug_indications db.
                           sider_drug_concept_name row = Some d \<and>
                           (\<exists>i \<in> set indication_list. sider_event_concept_name row = Some i) \<and>
                           sider_event_concept_name row \<noteq> Some ''Sudden death'']
                   = length indication_list)" (is "?L \<longleftrightarrow> ?R") for x
  proof
    assume ?L
    then have x: "x \<in> set (map fst subquery)"
      and c: "sql_count (map snd [r \<leftarrow> subquery. fst r = x]) = length indication_list"
      using keys by (auto simp: res_def drugs_def)
    from x obtain d where xd: "x = Some d" and dr: "d \<noteq> replaced_drug"
      unfolding subquery_def alternative_subquery_def subquery_keys by blast
    from c have "length [row \<leftarrow> tbl_sider_drug_indications db.
                           sider_drug_concept_name row = Some d \<and>
                           (\<exists>i \<in> set indication_list. sider_event_concept_name row = Some i) \<and>
                           sider_event_concept_name row \<noteq> Some ''Sudden death'']
                   = length indication_list"
      unfolding xd subquery_def alternative_subquery_def subquery_group_count [OF dr] .
    with xd dr show ?R by blast
  next
    assume ?R
    then obtain d where xd: "x = Some d" and dr: "d \<noteq> replaced_drug"
      and c: "length [row \<leftarrow> tbl_sider_drug_indications db.
                           sider_drug_concept_name row = Some d \<and>
                           (\<exists>i \<in> set indication_list. sider_event_concept_name row = Some i) \<and>
                           sider_event_concept_name row \<noteq> Some ''Sudden death'']
                   = length indication_list"
      by blast
    from c assms(2) have "[row \<leftarrow> tbl_sider_drug_indications db.
                           sider_drug_concept_name row = Some d \<and>
                           (\<exists>i \<in> set indication_list. sider_event_concept_name row = Some i) \<and>
                           sider_event_concept_name row \<noteq> Some ''Sudden death''] \<noteq> []"
      by (metis length_0_conv)
    with dr have x: "x \<in> set (map fst subquery)"
      unfolding xd subquery_def alternative_subquery_def subquery_keys by blast
    have "sql_count (map snd [r \<leftarrow> subquery. fst r = x]) = length indication_list"
      unfolding xd subquery_def alternative_subquery_def subquery_group_count [OF dr] by (rule c)
    with x keys show ?L
      by (simp add: res_def drugs_def image_iff)
  qed
  from r d m show ?thesis by blast
qed

theorem alternative_search_exact_count_witness:
  "enumerates (remdups :: string option list \<Rightarrow> string option list) \<and>
   [''Pain'', ''Fever''] \<noteq> ([] :: string list) \<and>
   alternative_search remdups sider_db ''aspirin'' [''Pain'', ''Fever''] = Inr sider_alternatives \<and>
   distinct sider_alternatives \<and>
   length [row \<leftarrow> tbl_sider_drug_indications sider_db.
             sider_drug_concept_name row = Some ''naproxen'' \<and>
             (\<exists>i \<in> set [''Pain'', ''Fever'']. sider_event_concept_name row = Some i) \<and>
             sider_event_concept_name row \<noteq> Some ''Sudden death'']
     = length [''Pain'', ''Fever'']"
proof -
  have h: "enumerates (remdups :: string option list \<Rightarrow> string option list)"
    by (simp add: enumerates_def)
  have n: "[''Pain'', ''Fever''] \<noteq> ([] :: string list)"
    by simp
  have e: "alternative_search remdups sider_db ''aspirin'' [''Pain'', ''Fever'']
             = Inr sider_alternatives"
    by code_simp
  have m: "\<lparr>drug_concept_name = Some ''naproxen''\<rparr> \<in> set sider_alternatives"
    by (simp add: sider_alternatives_def)
  from alternative_search_exact_count [OF h n, of sider_db "''aspirin''"] e
  have p: "distinct sider_alternatives \<and>
        (\<forall>x. \<lparr>drug_concept_name = x\<rparr> \<in> set sider_alternatives \<longleftrightarrow>
              (\<exists>d. x = Some d \<and> d \<noteq> ''aspirin'' \<and>
                 length [row \<leftarrow> tbl_sider_drug_indications sider_db.
                           sider_drug_concept_name row = Some d \<and>
                           (\<exists>i \<in> set [''Pain'', ''Fever'']. sider_event_concept_name row = Some i) \<and>
                           sider_event_concept_name row \<noteq> Some ''Sudden death'']
                   = length [''Pain'', ''Fever'']))"
    by auto
  with m have "\<exists>d. Some ''naproxen'' = Some d \<and> d \<noteq> ''aspirin'' \<and>
                 length [row \<leftarrow> tbl_sider_drug_indications sider_db.
                           sider_drug_concept_name row = Some d \<and>
                           (\<exists>i \<in> set [''Pain'', ''Fever'']. sider_event_concept_name row = Some i) \<and>
                           sider_event_concept_name row \<noteq> Some ''Sudden death'']
                   = length [''Pain'', ''Fever'']"
    by blast
  then have "length [row \<leftarrow> tbl_sider_drug_indications sider_db.
             sider_drug_concept_name row = Some ''naproxen'' \<and>
             (\<exists>i \<in> set [''Pain'', ''Fever'']. sider_event_concept_name row = Some i) \<and>
             sider_event_concept_name row \<noteq> Some ''Sudden death'']
     = length [''Pain'', ''Fever'']"
    by auto
  with h n e p show ?thesis by blast
qed

section \<open>\<^verbatim>\<open>/ancestor_side_effects\<close>: the mapping\<close>

lemma dict_append_keys:
  "map fst (dict_append k v items) =
     (if k \<in> set (map fst items) then map fst items else map fst items @ [k])"
  by (induction items) force+

lemma dict_append_lookup:
  "map_of (dict_append k v items) k' =
     (if k' = k then Some ((case map_of items k of None \<Rightarrow> [] | Some vs \<Rightarrow> vs) @ [v])
      else map_of items k')"
  by (induction items) auto

lemma fold_dict_append:
  "distinct (map fst acc) \<Longrightarrow>
   distinct (map fst (fold (\<lambda>r. dict_append (kf r) (vf r)) rows acc)) \<and>
   set (map fst (fold (\<lambda>r. dict_append (kf r) (vf r)) rows acc)) = set (map fst acc) \<union> kf ` set rows \<and>
   (\<forall>k. map_of (fold (\<lambda>r. dict_append (kf r) (vf r)) rows acc) k =
      (if k \<in> set (map fst acc) \<union> kf ` set rows
       then Some ((case map_of acc k of None \<Rightarrow> [] | Some vs \<Rightarrow> vs) @ map vf [r \<leftarrow> rows. kf r = k])
       else None))"
proof (induction rows arbitrary: acc)
  case Nil
  then show ?case
    by (auto simp: map_of_eq_None_iff split: option.splits)
next
  case (Cons r rows)
  have d: "distinct (map fst (dict_append (kf r) (vf r) acc))"
    using Cons.prems by (simp add: dict_append_keys)
  have k: "set (map fst (dict_append (kf r) (vf r) acc)) = insert (kf r) (set (map fst acc))"
    by (auto simp: dict_append_keys)
  show ?case
    using Cons.IH [OF d] unfolding k
    by (auto simp: dict_append_lookup split: option.splits)
qed

lemma group_ancestors_keys:
  "distinct (map fst (group_ancestors rows)) \<and>
   set (map fst (group_ancestors rows)) = descendant_concept_name ` set rows"
  using fold_dict_append [of "[]" descendant_concept_name ancestor_concept_name rows]
  by (simp add: group_ancestors_def)

lemma group_ancestors_items:
  assumes "(k, vs) \<in> set (group_ancestors rows)"
  shows "vs = map ancestor_concept_name [r \<leftarrow> rows. descendant_concept_name r = k]"
proof -
  have "distinct (map fst (group_ancestors rows))"
    by (simp add: group_ancestors_keys)
  with assms have "map_of (group_ancestors rows) k = Some vs"
    by simp
  moreover have "map_of (group_ancestors rows) k =
      (if k \<in> descendant_concept_name ` set rows
       then Some (map ancestor_concept_name [r \<leftarrow> rows. descendant_concept_name r = k])
       else None)"
    using fold_dict_append [of "[]" descendant_concept_name ancestor_concept_name rows]
    by (simp add: group_ancestors_def)
  ultimately show ?thesis
    by (simp split: if_splits)
qed

lemma those_Some: "those xs = Some ys \<Longrightarrow> xs = map Some ys"
  by (induction xs arbitrary: ys) (auto split: option.splits)

lemma those_total: "None \<notin> set xs \<Longrightarrow> \<exists>ys. those xs = Some ys"
proof (induction xs)
  case Nil
  then show ?case by simp
next
  case (Cons x xs)
  then obtain y ys where "x = Some y" and "those xs = Some ys"
    by (cases x) auto
  then show ?case by simp
qed

lemma join_set_Inr:
  assumes "enumerates list_set" and "join_set list_set vs = Inr label"
  shows "\<exists>names. distinct names \<and> set vs = Some ` set names \<and> label = join ''/'' names"
proof -
  from assms(2) obtain names where t: "those (list_set vs) = Some names"
    and l: "label = join ''/'' names"
    by (auto simp: join_set_def split: option.splits)
  from those_Some [OF t] have e: "list_set vs = map Some names" .
  from assms(1) have "distinct (list_set vs)" and "set (list_set vs) = set vs"
    by (simp_all add: enumerates_def)
  with e have "distinct names" and "set vs = Some ` set names"
    by (auto simp: distinct_map)
  with l show ?thesis by blast
qed

lemma join_set_total:
  assumes "enumerates list_set" and "None \<notin> set vs"
  shows "\<exists>label. join_set list_set vs = Inr label"
proof -
  from assms have "None \<notin> set (list_set vs)"
    by (simp add: enumerates_def)
  from those_total [OF this] show ?thesis
    by (auto simp: join_set_def)
qed

lemma join_values_Inr:
  "join_values list_set items = Inr res \<Longrightarrow>
   map fst res = map fst items \<and>
   (\<forall>kl \<in> set res. \<exists>vs. (fst kl, vs) \<in> set items \<and> join_set list_set vs = Inr (snd kl))"
proof (induction items arbitrary: res)
  case Nil
  then show ?case by simp
next
  case (Cons item items)
  obtain k vs where item: "item = (k, vs)" by (cases item)
  from Cons.prems obtain label rest where l: "join_set list_set vs = Inr label"
    and r: "join_values list_set items = Inr rest" and res: "res = (k, label) # rest"
    by (auto simp: item split: sum.splits)
  from Cons.IH [OF r] l show ?case
    by (auto simp: res item)
qed

lemma join_values_total:
  assumes "enumerates list_set" and "\<forall>kv \<in> set items. None \<notin> set (snd kv)"
  shows "\<exists>res. join_values list_set items = Inr res"
  using assms(2)
proof (induction items)
  case Nil
  then show ?case by simp
next
  case (Cons item items)
  obtain k vs where item: "item = (k, vs)" by (cases item)
  from Cons.prems item have "None \<notin> set vs" by simp
  from join_set_total [OF assms(1) this] obtain label where "join_set list_set vs = Inr label" ..
  moreover from Cons obtain rest where "join_values list_set items = Inr rest" by auto
  ultimately show ?case by (simp add: item)
qed

lemma ancestor_mappings_iff:
  "row \<in> set (ancestor_mappings db pt_list) \<longleftrightarrow>
     row \<in> set (tbl_pt_to_hlt_or_hlgt db) \<and>
     (\<exists>d \<in> set pt_list. descendant_concept_name row = Some d) \<and>
     ancestor_concept_class_id row = Some ''HLGT''"
  by (auto simp: ancestor_mappings_def Let_def sql_in_def sql_eq_def)

text \<open>
  C9, as the code has it: when none of the \<^verbatim>\<open>'HLGT'\<close> rows of the requested names
  has a null ancestor name, \<^verbatim>\<open>/ancestor_side_effects\<close> returns a mapping; and a
  mapping it returns has one key for every requested name that has a row of class
  \<^verbatim>\<open>'HLGT'\<close>, and no other key, the value of a key being its \<^verbatim>\<open>'HLGT'\<close> ancestor
  names, each once, joined by \<^verbatim>\<open>'/'\<close> in some order.
\<close>

theorem ancestor_side_effects_mapping:
  assumes "enumerates list_set"
  shows "((\<forall>row \<in> set (ancestor_mappings db pt_list). ancestor_concept_name row \<noteq> None) \<longrightarrow>
            (\<exists>res. get_ancestor_side_effects list_set db pt_list = Inr res)) \<and>
         (\<forall>res. get_ancestor_side_effects list_set db pt_list = Inr res \<longrightarrow>
            distinct (map fst res) \<and>
            set (map fst res) =
              {Some d | d. d \<in> set pt_list \<and>
                 (\<exists>row \<in> set (tbl_pt_to_hlt_or_hlgt db).
                    descendant_concept_name row = Some d \<and>
                    ancestor_concept_class_id row = Some ''HLGT'')} \<and>
            (\<forall>kl \<in> set res. \<exists>names. distinct names \<and>
               set names =
                 {a. \<exists>row \<in> set (tbl_pt_to_hlt_or_hlgt db).
                       descendant_concept_name row = fst kl \<and>
                       ancestor_concept_class_id row = Some ''HLGT'' \<and>
                       ancestor_concept_name row = Some a} \<and>
               snd kl = join ''/'' names))"
proof (intro conjI allI impI)
  define rows where "rows = ancestor_mappings db pt_list"
  assume "\<forall>row \<in> set (ancestor_mappings db pt_list). ancestor_concept_name row \<noteq> None"
  then have "\<forall>kv \<in> set (group_ancestors rows). None \<notin> set (snd kv)"
    using group_ancestors_items [of _ _ rows] by (fastforce simp: rows_def)
  from join_values_total [OF assms this]
  show "\<exists>res. get_ancestor_side_effects list_set db pt_list = Inr res"
    by (auto simp: get_ancestor_side_effects_def rows_def)
next
  fix res
  define rows where "rows = ancestor_mappings db pt_list"
  assume "get_ancestor_side_effects list_set db pt_list = Inr res"
  then have jv: "join_values list_set (group_ancestors rows) = Inr res"
    by (auto simp: get_ancestor_side_effects_def rows_def except_500_def split: sum.splits)
  from join_values_Inr [OF jv]
  have keys: "map fst res = map fst (group_ancestors rows)"
    and items: "\<forall>kl \<in> set res. \<exists>vs. (fst kl, vs) \<in> set (group_ancestors rows) \<and>
                   join_set list_set vs = Inr (snd kl)"
    by blast+
  show "distinct (map fst res)"
    by (simp add: keys group_ancestors_keys)
  show "set (map fst res) =
          {Some d | d. d \<in> set pt_list \<and>
             (\<exists>row \<in> set (tbl_pt_to_hlt_or_hlgt db).
                descendant_concept_name row = Some d \<and>
                ancestor_concept_class_id row = Some ''HLGT'')}"
  proof -
    have "descendant_concept_name ` set rows =
          {Some d | d. d \<in> set pt_list \<and>
             (\<exists>row \<in> set (tbl_pt_to_hlt_or_hlgt db).
                descendant_concept_name row = Some d \<and>
                ancestor_concept_class_id row = Some ''HLGT'')}"
    proof (intro set_eqI iffI)
      fix k
      assume "k \<in> descendant_concept_name ` set rows"
      then obtain row where "row \<in> set rows" and "k = descendant_concept_name row"
        by blast
      then show "k \<in> {Some d | d. d \<in> set pt_list \<and>
             (\<exists>row \<in> set (tbl_pt_to_hlt_or_hlgt db).
                descendant_concept_name row = Some d \<and>
                ancestor_concept_class_id row = Some ''HLGT'')}"
        unfolding rows_def ancestor_mappings_iff by auto
    next
      fix k
      assume "k \<in> {Some d | d. d \<in> set pt_list \<and>
             (\<exists>row \<in> set (tbl_pt_to_hlt_or_hlgt db).
                descendant_concept_name row = Some d \<and>
                ancestor_concept_class_id row = Some ''HLGT'')}"
      then obtain d row where "k = Some d" and "d \<in> set pt_list"
        and "row \<in> set (tbl_pt_to_hlt_or_hlgt db)"
        and "descendant_concept_name row = Some d"
        and "ancestor_concept_class_id row = Some ''HLGT''"
        by blast
      then have "row \<in> set rows" and "descendant_concept_name row = k"
        unfolding rows_def ancestor_mappings_iff by auto
      then show "k \<in> descendant_concept_name ` set rows"
        by blast
    qed
    then show ?thesis
      using group_ancestors_keys [of rows] by (simp add: keys)
  qed
  show "\<forall>kl \<in> set res. \<exists>names. distinct names \<and>
               set names =
                 {a. \<exists>row \<in> set (tbl_pt_to_hlt_or_hlgt db).
                       descendant_concept_name row = fst kl \<and>
                       ancestor_concept_class_id row = Some ''HLGT'' \<and>
                       ancestor_concept_name row = Some a} \<and>
               snd kl = join ''/'' names"
  proof
    fix kl
    assume "kl \<in> set res"
    with items obtain vs where g: "(fst kl, vs) \<in> set (group_ancestors rows)"
      and j: "join_set list_set vs = Inr (snd kl)"
      by blast
    from join_set_Inr [OF assms j] obtain names where dn: "distinct names"
      and sv: "set vs = Some ` set names" and l: "snd kl = join ''/'' names"
      by blast
    from g have "fst kl \<in> set (map fst (group_ancestors rows))"
      by force
    then obtain d where kd: "fst kl = Some d" and din: "d \<in> set pt_list"
      using group_ancestors_keys [of rows] by (auto simp: rows_def ancestor_mappings_iff)
    have vs: "vs = map ancestor_concept_name [r \<leftarrow> rows. descendant_concept_name r = fst kl]"
      using g by (rule group_ancestors_items)
    have "set names =
            {a. \<exists>row \<in> set (tbl_pt_to_hlt_or_hlgt db).
                  descendant_concept_name row = fst kl \<and>
                  ancestor_concept_class_id row = Some ''HLGT'' \<and>
                  ancestor_concept_name row = Some a}"
    proof (intro set_eqI iffI)
      fix a
      assume "a \<in> set names"
      then have "Some a \<in> set vs" using sv by blast
      then show "a \<in> {a. \<exists>row \<in> set (tbl_pt_to_hlt_or_hlgt db).
                  descendant_concept_name row = fst kl \<and>
                  ancestor_concept_class_id row = Some ''HLGT'' \<and>
                  ancestor_concept_name row = Some a}"
        unfolding vs by (auto simp: rows_def ancestor_mappings_iff)
    next
      fix a
      assume "a \<in> {a. \<exists>row \<in> set (tbl_pt_to_hlt_or_hlgt db).
                  descendant_concept_name row = fst kl \<and>
                  ancestor_concept_class_id row = Some ''HLGT'' \<and>
                  ancestor_concept_name row = Some a}"
      then obtain row where "row \<in> set (tbl_pt_to_hlt_or_hlgt db)"
        and "descendant_concept_name row = fst kl"
        and "ancestor_concept_class_id row = Some ''HLGT''"
        and a: "ancestor_concept_name row = Some a"
        by blast
      then have "row \<in> set rows" and "descendant_concept_name row = fst kl"
        using kd din by (auto simp: rows_def ancestor_mappings_iff)
      then have "Some a \<in> set vs"
        unfolding vs using a by force
      then show "a \<in> set names" using sv by blast
    qed
    with dn l show "\<exists>names. distinct names \<and>
               set names =
                 {a. \<exists>row \<in> set (tbl_pt_to_hlt_or_hlgt db).
                       descendant_concept_name row = fst kl \<and>
                       ancestor_concept_class_id row = Some ''HLGT'' \<and>
                       ancestor_concept_name row = Some a} \<and>
               snd kl = join ''/'' names"
      by blast
  qed
qed

theorem ancestor_side_effects_mapping_witness:
  "enumerates (remdups :: string option list \<Rightarrow> string option list) \<and>
   (\<exists>res. get_ancestor_side_effects remdups meddra_db [''Headache'', ''Dizziness'', ''Vertigo'']
            = Inr res) \<and>
   get_ancestor_side_effects remdups meddra_db [''Headache'', ''Dizziness'', ''Vertigo'']
     = Inr [(Some ''Headache'', ''Neurological disorders NEC/Headaches'')] \<and>
   set (map fst [(Some ''Headache'', ''Neurological disorders NEC/Headaches'')]) =
     {Some d | d. d \<in> set [''Headache'', ''Dizziness'', ''Vertigo''] \<and>
        (\<exists>row \<in> set (tbl_pt_to_hlt_or_hlgt meddra_db).
           descendant_concept_name row = Some d \<and>
           ancestor_concept_class_id row = Some ''HLGT'')}"
proof -
  have h: "enumerates (remdups :: string option list \<Rightarrow> string option list)"
    by (simp add: enumerates_def)
  have n: "\<forall>row \<in> set (ancestor_mappings meddra_db [''Headache'', ''Dizziness'', ''Vertigo'']).
             ancestor_concept_name row \<noteq> None"
    by code_simp
  have e: "get_ancestor_side_effects remdups meddra_db [''Headache'', ''Dizziness'', ''Vertigo'']
             = Inr [(Some ''Headache'', ''Neurological disorders NEC/Headaches'')]"
    by code_simp
  note t = ancestor_side_effects_mapping
    [OF h, of meddra_db "[''Headache'', ''Dizziness'', ''Vertigo'']"]
  from t n have "\<exists>res. get_ancestor_side_effects remdups meddra_db
                         [''Headache'', ''Dizziness'', ''Vertigo''] = Inr res"
    by blast
  moreover from t e
  have "set (map fst [(Some ''Headache'', ''Neurological disorders NEC/Headaches'')]) =
     {Some d | d. d \<in> set [''Headache'', ''Dizziness'', ''Vertigo''] \<and>
        (\<exists>row \<in> set (tbl_pt_to_hlt_or_hlgt meddra_db).
           descendant_concept_name row = Some d \<and>
           ancestor_concept_class_id row = Some ''HLGT'')}"
    by blast
  ultimately show ?thesis using h e by blast
qed

text \<open>
  C9, as the claim states it, fails where a selected row has a null ancestor name: the
  second \<^verbatim>\<open>'HLGT'\<close> row of Headache has none, \<^verbatim>\<open>'/'.join\<close> raises
  \<^verbatim>\<open>TypeError\<close> on it, and the request for Headache is answered by HTTP 500 instead
  of a mapping.
\<close>

theorem ancestor_side_effects_null_name_counterexample:
  "get_ancestor_side_effects remdups null_ancestor_db [''Headache'']
     = Inl (HTTPException 500 (Str TypeError))"
  by code_simp

section \<open>The clinical records: unknown identifiers and the diagnosis list\<close>

lemma first_None [simp]: "first xs = None \<longleftrightarrow> xs = []"
  by (simp add: first_def split: list.splits)

lemma find_patient_None:
  "find_patient matches db patient_id = None \<longleftrightarrow>
     \<not> (\<exists>p \<in> set (tbl_patients db). subject_is matches (patient_SUBJECT_ID p) patient_id)"
  by (auto simp: find_patient_def filter_empty_conv)

lemma get_or_empty_add_hadm_id:
  "get_or_empty (add_hadm_id d m) k =
     (if k = diagnosis_ICD9_CODE d then
        (case diagnosis_HADM_ID d of
           None \<Rightarrow> get_or_empty m k
         | Some h \<Rightarrow> if h \<noteq> 0 \<and> h \<notin> set (get_or_empty m k)
                      then get_or_empty m k @ [h] else get_or_empty m k)
      else get_or_empty m k)"
  by (auto simp: add_hadm_id_def get_or_empty_def Let_def split: option.splits)

lemma fold_add_hadm_id:
  "distinct (get_or_empty m k) \<Longrightarrow>
   distinct (get_or_empty (fold add_hadm_id rows m) k) \<and>
   set (get_or_empty (fold add_hadm_id rows m) k) =
     set (get_or_empty m k) \<union>
     {h. h \<noteq> 0 \<and> (\<exists>d \<in> set rows. diagnosis_ICD9_CODE d = k \<and> diagnosis_HADM_ID d = Some h)}"
proof (induction rows arbitrary: m)
  case Nil
  then show ?case by simp
next
  case (Cons d rows)
  have "distinct (get_or_empty (add_hadm_id d m) k)"
    using Cons.prems by (auto simp: get_or_empty_add_hadm_id split: option.splits)
  from Cons.IH [OF this] show ?case
    by (auto simp: get_or_empty_add_hadm_id split: option.splits if_splits)
qed

lemma icd9_to_hadm_ids_entry:
  "distinct (get_or_empty (icd9_to_hadm_ids rows) k) \<and>
   set (get_or_empty (icd9_to_hadm_ids rows) k) =
     {h. h \<noteq> 0 \<and> (\<exists>d \<in> set rows. diagnosis_ICD9_CODE d = k \<and> diagnosis_HADM_ID d = Some h)}"
  using fold_add_hadm_id [of Map.empty k rows]
  by (simp add: icd9_to_hadm_ids_def get_or_empty_def)

lemma fold_update_dom:
  "dom (fold (\<lambda>d m. m(kf d \<mapsto> vf d)) rows m) = dom m \<union> kf ` set rows"
  by (induction rows arbitrary: m) auto

lemma icd9_to_titles_None:
  "icd9_to_titles rows k = None \<longleftrightarrow> k \<notin> icd_ICD9_CODE ` set rows"
proof -
  have "dom (icd9_to_titles rows) = icd_ICD9_CODE ` set rows"
    using fold_update_dom [of icd_ICD9_CODE "\<lambda>d. (SHORT_TITLE d, LONG_TITLE d)" rows Map.empty]
    by (simp add: icd9_to_titles_def)
  then show ?thesis
    by (metis domIff)
qed

lemma diagnosis_of_simps [simp]:
  "icd9_code (diagnosis_of titles hadm code) = code"
  "hadm_ids (diagnosis_of titles hadm code) = get_or_empty hadm code"
  by (auto simp: diagnosis_of_def Let_def split: option.splits)

lemma diagnosis_of_unknown:
  "titles code = None \<Longrightarrow>
   short_title (diagnosis_of titles hadm code) = Some ''Unknown'' \<and>
   long_title (diagnosis_of titles hadm code) = Some ''Unknown''"
  by (simp add: diagnosis_of_def Let_def)

text \<open>
  An unknown patient: the portfolio handler answers 404. The diagnosis handler raises the
  same 404 inside its \<^verbatim>\<open>try\<close> block, where the catch-all clause replaces it by a 500;
  the admission handler does the same for an unknown admission.
\<close>

lemma patient_portfolio_not_found:
  assumes "\<not> (\<exists>p \<in> set (tbl_patients db). subject_is matches (patient_SUBJECT_ID p) patient_id)"
  shows "get_patient_portfolio_mimic matches assemble db patient_id =
           Inl (HTTPException 404 (Text (''Patient with ID '' @ patient_id @ '' not found'')))"
  using assms find_patient_None [of matches db patient_id]
  by (simp add: get_patient_portfolio_mimic_def)

lemma patient_diagnoses_not_found:
  assumes "\<not> (\<exists>p \<in> set (tbl_patients db). subject_is matches (patient_SUBJECT_ID p) patient_id)"
  shows "get_patient_diagnoses_mimic matches list_set db patient_id =
           Inl (HTTPException 500 (Str (HTTPException 404
             (Text (''Patient with ID '' @ patient_id @ '' not found'')))))"
  using assms find_patient_None [of matches db patient_id]
  by (simp add: get_patient_diagnoses_mimic_def)

lemma admission_not_found:
  assumes "\<not> (\<exists>a \<in> set (tbl_admissions db). admission_HADM_ID a = Some hadm_id)"
  shows "get_admission_details db hadm_id =
           Inl (HTTPException 500 (Str (HTTPException 404
             (Text (''Admission with ID '' @ str_int hadm_id @ '' not found'')))))"
proof -
  from assms have "[a \<leftarrow> tbl_admissions db. sql_eq (admission_HADM_ID a) hadm_id] = []"
    by (auto simp: filter_empty_conv sql_eq_def)
  then show ?thesis
    by (simp add: get_admission_details_def first_def)
qed

text \<open>
  C1, at identifiers that match no row: \<^verbatim>\<open>/patient_diagnoses_mimic\<close> and
  \<^verbatim>\<open>/admission_details\<close> answer HTTP 500 (whose detail is the text of the 404 that
  was raised), where the claim says 404; \<^verbatim>\<open>/patient_portfolio_mimic\<close> answers the 404.
\<close>

theorem unknown_identifier_status:
  "get_patient_diagnoses_mimic decimal_id remdups clinic_db ''999'' =
      Inl (HTTPException 500 (Str (HTTPException 404 (Text ''Patient with ID 999 not found'')))) \<and>
   get_admission_details clinic_db 999 =
      Inl (HTTPException 500 (Str (HTTPException 404 (Text ''Admission with ID 999 not found'')))) \<and>
   get_patient_portfolio_mimic decimal_id Inr clinic_db ''999'' =
      Inl (HTTPException 404 (Text ''Patient with ID 999 not found''))"
  by code_simp

text \<open>
  C10, as the code has it: for a patient that exists the handler returns one entry per
  distinct ICD9 code of the patient's diagnosis rows; an entry whose code has no title row
  carries \<^verbatim>\<open>"Unknown"\<close> for both titles; and the admission IDs of an entry are those
  recorded for its code, each once, without the null ones and without 0.
\<close>

theorem patient_diagnoses_entries:
  assumes "enumerates list_set"
    and "\<exists>p \<in> set (tbl_patients db). subject_is matches (patient_SUBJECT_ID p) patient_id"
  shows "\<exists>res. get_patient_diagnoses_mimic matches list_set db patient_id = Inr res \<and>
           distinct (map icd9_code res) \<and>
           set (map icd9_code res) =
             diagnosis_ICD9_CODE ` set (patient_diagnoses matches db patient_id) \<and>
           (\<forall>e \<in> set res.
              (\<not> (\<exists>t \<in> set (tbl_d_icd db).
                     icd_ICD9_CODE t \<noteq> None \<and> icd_ICD9_CODE t = icd9_code e) \<longrightarrow>
                 short_title e = Some ''Unknown'' \<and> long_title e = Some ''Unknown'') \<and>
              distinct (hadm_ids e) \<and>
              set (hadm_ids e) =
                {h. h \<noteq> 0 \<and>
                    (\<exists>d \<in> set (patient_diagnoses matches db patient_id).
                       diagnosis_ICD9_CODE d = icd9_code e \<and> diagnosis_HADM_ID d = Some h)})"
proof -
  define rows where "rows = patient_diagnoses matches db patient_id"
  define codes where "codes = map diagnosis_ICD9_CODE rows"
  define titles where
    "titles = icd9_to_titles [t \<leftarrow> tbl_d_icd db. sql_in (icd_ICD9_CODE t) codes]"
  define res where
    "res = map (diagnosis_of titles (icd9_to_hadm_ids rows)) (list_set codes)"
  from assms(2) obtain patient where "find_patient matches db patient_id = Some patient"
    using find_patient_None [of matches db patient_id] by auto
  then have r: "get_patient_diagnoses_mimic matches list_set db patient_id = Inr res"
    by (simp add: get_patient_diagnoses_mimic_def Let_def res_def titles_def codes_def rows_def)
  have ic: "map icd9_code res = list_set codes"
    by (simp add: res_def comp_def)
  from assms(1) have d: "distinct (map icd9_code res)"
    and s: "set (map icd9_code res) = diagnosis_ICD9_CODE ` set rows"
    unfolding ic by (simp_all add: enumerates_def codes_def)
  have e: "(\<not> (\<exists>t \<in> set (tbl_d_icd db).
                     icd_ICD9_CODE t \<noteq> None \<and> icd_ICD9_CODE t = icd9_code e) \<longrightarrow>
                 short_title e = Some ''Unknown'' \<and> long_title e = Some ''Unknown'') \<and>
              distinct (hadm_ids e) \<and>
              set (hadm_ids e) =
                {h. h \<noteq> 0 \<and>
                    (\<exists>d \<in> set rows.
                       diagnosis_ICD9_CODE d = icd9_code e \<and> diagnosis_HADM_ID d = Some h)}"
    if "e \<in> set res" for e
  proof -
    from that obtain code where e: "e = diagnosis_of titles (icd9_to_hadm_ids rows) code"
      by (auto simp: res_def)
    have "titles code = None"
      if "\<not> (\<exists>t \<in> set (tbl_d_icd db). icd_ICD9_CODE t \<noteq> None \<and> icd_ICD9_CODE t = code)"
      using that unfolding titles_def icd9_to_titles_None
      by (auto simp: sql_in_def)
    then show ?thesis
      using icd9_to_hadm_ids_entry [of rows code]
      by (simp add: e diagnosis_of_unknown)
  qed
  from r d s e show ?thesis
    unfolding rows_def by blast
qed

theorem patient_diagnoses_entries_witness:
  "enumerates (remdups :: string option list \<Rightarrow> string option list) \<and>
   (\<exists>p \<in> set (tbl_patients clinic_db). subject_is decimal_id (patient_SUBJECT_ID p) ''1'') \<and>
   get_patient_diagnoses_mimic decimal_id remdups clinic_db ''1'' = Inr clinic_diagnoses \<and>
   distinct (map icd9_code clinic_diagnoses) \<and>
   set (map icd9_code clinic_diagnoses) =
     diagnosis_ICD9_CODE ` set (patient_diagnoses decimal_id clinic_db ''1'')"
proof -
  have h: "enumerates (remdups :: string option list \<Rightarrow> string option list)"
    by (simp add: enumerates_def)
  have p: "\<exists>p \<in> set (tbl_patients clinic_db). subject_is decimal_id (patient_SUBJECT_ID p) ''1''"
    by code_simp
  have e: "get_patient_diagnoses_mimic decimal_id remdups clinic_db ''1'' = Inr clinic_diagnoses"
    by code_simp
  from patient_diagnoses_entries [OF h p] e
  have "distinct (map icd9_code clinic_diagnoses) \<and>
        set (map icd9_code clinic_diagnoses) =
          diagnosis_ICD9_CODE ` set (patient_diagnoses decimal_id clinic_db ''1'')"
    by auto
  with h p e show ?thesis by blast
qed

text \<open>
  C10, as the claim states it, fails where an admission ID is 0: patient 1 has a diagnosis
  row of code 4019 whose admission ID is 0, not null, and the entry of code 4019 lists
  admission 100 only.
\<close>

theorem patient_diagnoses_zero_hadm_counterexample:
  "get_patient_diagnoses_mimic decimal_id remdups clinic_db ''1'' = Inr clinic_diagnoses \<and>
   [e \<leftarrow> clinic_diagnoses. icd9_code e = Some ''4019''] =
     [\<lparr>icd9_code = Some ''4019'', short_title = Some ''Hypertension NOS'',
       long_title = Some ''Unspecified essential hypertension'', hadm_ids = [100]\<rparr>] \<and>
   diagnosis_row 1 (Some 0) (Some ''4019'') \<in> set (patient_diagnoses decimal_id clinic_db ''1'')"
  by code_simp

end
